theory Spec2Isabelle
  imports Main "HOL-Library.Word"
begin

section \<open>Heatwave: unfreezing accounts (src/index.ts)\<close>

text \<open>
  The tool reads a list of account addresses, rebuilds the state each account had when it
  was frozen, and redeploys that state through a relay contract. The chain provider, the
  state archive, the file system and the console are outside the program: the provider and
  the archive are read through the functions of an environment record, the file system and
  everything the program does to the outside are kept in an explicit world value.
\<close>

subsection \<open>Values\<close>

type_synonym address = string

type_synonym byte = "8 word"

text \<open>
  What a \<^verbatim>\<open>throw\<close> carries: \<^verbatim>\<open>new Error(msg)\<close>, a Node system error with its
  \<^verbatim>\<open>code\<close> and message, or a bare string (\<^verbatim>\<open>throw e\<close> after \<^verbatim>\<open>res.text()\<close>).
\<close>

datatype error = Error string | SysError string string | Thrown string

text \<open>The text that \<^verbatim>\<open>${e.message}\<close> puts into a template; a string has no such property.\<close>

fun messageText :: "error \<Rightarrow> string" where
  "messageText (Error m) = m"
| "messageText (SysError c m) = m"
| "messageText (Thrown s) = ''undefined''"

text \<open>The provider's account status: "uninit", "frozen", "active", "nonexist".\<close>

datatype accountStatus = Uninit | Frozen | Active | Nonexist

record transactionId =
  lt :: string
  hash :: string

record transaction =
  txId :: transactionId
  origStatus :: accountStatus
  endStatus :: accountStatus

record batch =
  transactions :: "transaction list"
  continuation :: "transactionId option"

record contractState =
  codeHash :: "string option"
  boc :: string

record storageFee =
  accountStatus :: accountStatus
  storageFeeDebt :: "string option"

datatype archiveReply = ReplyOk string | ReplyNotOk string

datatype keyFile = KeyNull | KeyNotObject | KeyObject "string option" "string option"

text \<open>
  A call of the relay contract's \<^verbatim>\<open>deploy\<close> with its \<^verbatim>\<open>send\<close> arguments; \<open>sender\<close>
  is the \<^verbatim>\<open>from\<close> field, and \<open>amount\<close> the number that \<^verbatim>\<open>amount.toString()\<close> writes.
\<close>

record sendRequest =
  contract :: address
  dest :: address
  state_init :: string
  sender :: address
  amount :: int
  bounce :: bool

record FrozenAccount =
  address :: address
  state :: string
  storageFeeDebt :: string

datatype account =
    WalletV3Account address
  | HighloadWalletV2 address
  | EverWalletAccount address
  | GiverAccount address string

subsection \<open>The outside\<close>

text \<open>
  The answers of the collaborators. Each call may fail (\<open>Inl\<close>). A provider answers the
  same question the same way during a run.
\<close>

record env =
  tmpdir :: string
  dirname :: string
  clockTime :: int
  loadKeyFile :: "string \<Rightarrow> error + keyFile"
  readTextFile :: "string \<Rightarrow> error + string"
  ensureInitialized :: "error option"
  getFullContractState :: "address \<Rightarrow> error + contractState option"
  computeStorageFee :: "contractState \<Rightarrow> bool \<Rightarrow> int \<Rightarrow> error + storageFee"
  getTransactions :: "address \<Rightarrow> transactionId option \<Rightarrow> error + batch"
  getBocHash :: "string \<Rightarrow> error + string"
  postApply :: "string \<Rightarrow> error + archiveReply"
  parseFullAccountStateInit :: "string \<Rightarrow> error + string option"
  sendMessage :: "sendRequest \<Rightarrow> error + transactionId"
  traceFinished :: "transactionId \<Rightarrow> error option"

datatype node = File "byte list" | Directory | Denied

datatype event =
    ConsoleLog string
  | ConsoleError string
  | LoadKeyFile string
  | ReadTextFile string
  | EnsureInitialized
  | GetFullContractState address
  | ComputeStorageFee contractState bool int
  | GetTransactions address "transactionId option"
  | GetBocHash string
  | PostApply string
  | FsMkdir string
  | FsStat string
  | FsReadFile string
  | FsWriteFile string "byte list"
  | SendMessage sendRequest
  | TraceFinished transactionId
  | Exit nat

record world =
  files :: "string \<Rightarrow> node option"
  events :: "event list"

subsection \<open>Freeze point search (applyState, lines 248-273)\<close>

text \<open>
  The \<^verbatim>\<open>for\<close> loop over one page. The first component counts the records the loop has
  looked at; the second is the thrown error, the logical time found (\<^verbatim>\<open>break outer\<close>), or
  nothing when the page ends.
\<close>

fun scanBatch :: "transaction list \<Rightarrow> nat \<times> (error + string option)" where
  "scanBatch [] = (0, Inr None)"
| "scanBatch (t # ts) =
     (if endStatus t \<noteq> Frozen then (1, Inl (Error ''Account not frozen''))
      else if origStatus t \<noteq> Frozen then (1, Inr (Some (lt (txId t))))
      else (case scanBatch ts of (n, r) \<Rightarrow> (Suc n, r)))"

text \<open>
  The \<^verbatim>\<open>while (true)\<close> loop over the pages, followed by the check of
  \<^verbatim>\<open>freezeTransactionLt\<close>. It has no bound of its own: a provider that always hands out
  another continuation keeps it running, and then the result is \<open>None\<close>. A result carries
  the continuations asked for, in order, the number of records looked at, and the outcome.
\<close>

partial_function (option) searchFreeze ::
  "env \<Rightarrow> address \<Rightarrow> transactionId option \<Rightarrow> transactionId option list \<Rightarrow> nat
   \<Rightarrow> (transactionId option list \<times> nat \<times> (error + string)) option" where
  "searchFreeze p a c asked seen =
     (case getTransactions p a c of
        Inl e \<Rightarrow> Some (asked @ [c], seen, Inl e)
      | Inr b \<Rightarrow>
          (case scanBatch (transactions b) of
             (n, Inl e) \<Rightarrow> Some (asked @ [c], seen + n, Inl e)
           | (n, Inr (Some l)) \<Rightarrow> Some (asked @ [c], seen + n, Inr l)
           | (n, Inr None) \<Rightarrow>
               (case continuation b of
                  None \<Rightarrow> Some (asked @ [c], seen + n, Inl (Error ''Freeze transaction not found''))
                | Some c' \<Rightarrow> searchFreeze p a (Some c') (asked @ [c]) (seen + n))))"

declare searchFreeze.simps [code]

text \<open>The search as \<^verbatim>\<open>applyState\<close> starts it: no continuation, nothing asked or seen yet.\<close>

definition freezeTransactionLt ::
  "env \<Rightarrow> address \<Rightarrow> (transactionId option list \<times> nat \<times> (error + string)) option" where
  "freezeTransactionLt p a = searchFreeze p a None [] 0"

text \<open>
  The history an account shows through the provider: the first \<open>n\<close> pages reached from a
  continuation, when the provider serves that many, and their records newest first.
\<close>

fun pagesFrom :: "env \<Rightarrow> address \<Rightarrow> transactionId option \<Rightarrow> nat \<Rightarrow> batch list option" where
  "pagesFrom p a c 0 = Some []"
| "pagesFrom p a c (Suc n) =
     (case getTransactions p a c of
        Inl e \<Rightarrow> None
      | Inr b \<Rightarrow>
          (if n = 0 then Some [b]
           else (case continuation b of
                   None \<Rightarrow> None
                 | Some c' \<Rightarrow> map_option ((#) b) (pagesFrom p a (Some c') n))))"

definition history :: "batch list \<Rightarrow> transaction list" where
  "history bs = concat (map transactions bs)"

subsection \<open>Strings and numbers of the platform\<close>

fun indexOf :: "'a \<Rightarrow> 'a list \<Rightarrow> nat option" where
  "indexOf x [] = None"
| "indexOf x (y # ys) = (if x = y then Some 0 else map_option Suc (indexOf x ys))"

definition isSpace :: "char \<Rightarrow> bool" where
  "isSpace c = (c \<in> set [CHR '' '', CHR 0x09, CHR 0x0A, CHR 0x0B, CHR 0x0C, CHR 0x0D])"

text \<open>\<^verbatim>\<open>String.prototype.trim\<close>, on the ASCII white space and line terminators.\<close>

definition trim :: "string \<Rightarrow> string" where
  "trim s = rev (dropWhile isSpace (rev (dropWhile isSpace s)))"

text \<open>\<^verbatim>\<open>s.split(c)\<close> for a separator of one character.\<close>

fun splitOn :: "char \<Rightarrow> string \<Rightarrow> string list" where
  "splitOn c [] = [[]]"
| "splitOn c (x # xs) =
     (if x = c then [] # splitOn c xs
      else (case splitOn c xs of [] \<Rightarrow> [[x]] | y # ys \<Rightarrow> (x # y) # ys))"

text \<open>\<^verbatim>\<open>s.split(/\r?\n/)\<close>: a carriage return just before a line feed belongs to the separator.\<close>

fun dropCR :: "string list \<Rightarrow> string list" where
  "dropCR [] = []"
| "dropCR [l] = [l]"
| "dropCR (l # ls) =
     (if l \<noteq> [] \<and> last l = CHR 0x0D then butlast l else l) # dropCR ls"

definition splitLines :: "string \<Rightarrow> string list" where
  "splitLines s = dropCR (splitOn (CHR 0x0A) s)"

fun showNat :: "nat \<Rightarrow> string" where
  "showNat n =
     (if n < 10 then [''0123456789'' ! n]
      else showNat (n div 10) @ [''0123456789'' ! (n mod 10)])"

declare showNat.simps [simp del]

definition padStart :: "nat \<Rightarrow> string \<Rightarrow> string" where
  "padStart n s = replicate (n - length s) (CHR '' '') @ s"

text \<open>\<^verbatim>\<open>path.join\<close> and \<^verbatim>\<open>path.resolve\<close> on POSIX paths that need no normalising.\<close>

definition pathJoin :: "string \<Rightarrow> string \<Rightarrow> string" where
  "pathJoin a b = a @ ''/'' @ b"

definition pathResolve :: "string \<Rightarrow> string \<Rightarrow> string" where
  "pathResolve base rel = (if take 1 rel = ''/'' then rel else base @ ''/'' @ rel)"

text \<open>
  \<^verbatim>\<open>BigInt(string)\<close>: white space is trimmed, the empty string is zero, a decimal
  literal may carry a sign, a literal with prefix 0x, 0o or 0b may not, and anything else
  is a SyntaxError.
\<close>

definition digitValue :: "char \<Rightarrow> nat option" where
  "digitValue c =
     (case indexOf c ''0123456789abcdef'' of
        Some d \<Rightarrow> Some d
      | None \<Rightarrow> map_option (\<lambda>d. d + 10) (indexOf c ''ABCDEF''))"

fun digitsValue :: "nat \<Rightarrow> string \<Rightarrow> int \<Rightarrow> int option" where
  "digitsValue base [] acc = Some acc"
| "digitsValue base (c # cs) acc =
     (case digitValue c of
        None \<Rightarrow> None
      | Some d \<Rightarrow> if d < base then digitsValue base cs (acc * int base + int d) else None)"

definition parseDigits :: "nat \<Rightarrow> string \<Rightarrow> int option" where
  "parseDigits base ds = (if ds = [] then None else digitsValue base ds 0)"

definition stringToBigInt :: "string \<Rightarrow> int option" where
  "stringToBigInt s =
     (let t = trim s in
      if t = [] then Some 0
      else if take 2 t = ''0x'' \<or> take 2 t = ''0X'' then parseDigits 16 (drop 2 t)
      else if take 2 t = ''0o'' \<or> take 2 t = ''0O'' then parseDigits 8 (drop 2 t)
      else if take 2 t = ''0b'' \<or> take 2 t = ''0B'' then parseDigits 2 (drop 2 t)
      else if take 1 t = ''+'' then parseDigits 10 (drop 1 t)
      else if take 1 t = ''-'' then map_option uminus (parseDigits 10 (drop 1 t))
      else parseDigits 10 t)"

definition BigInt :: "string \<Rightarrow> error + int" where
  "BigInt s =
     (case stringToBigInt s of
        None \<Rightarrow> Inl (Error (''Cannot convert '' @ s @ '' to a BigInt''))
      | Some n \<Rightarrow> Inr n)"

text \<open>
  \<^verbatim>\<open>~~(x / 1000)\<close> for a whole number \<open>x\<close>: the quotient cut towards zero, then its
  low 32 bits read as two's complement.
\<close>

definition toInt32 :: "int \<Rightarrow> int" where
  "toInt32 n = sint (word_of_int n :: 32 word)"

definition truncDiv :: "int \<Rightarrow> int \<Rightarrow> int" where
  "truncDiv a b = (if (a < 0) = (b < 0) then \<bar>a\<bar> div \<bar>b\<bar> else - (\<bar>a\<bar> div \<bar>b\<bar>))"

subsection \<open>Base64 of the platform's buffers\<close>

definition base64Alphabet :: string where
  "base64Alphabet = ''ABCDEFGHIJKLMNOPQRSTUVWXYZabcdefghijklmnopqrstuvwxyz0123456789+/''"

definition base64Char :: "nat \<Rightarrow> char" where
  "base64Char n = base64Alphabet ! n"

text \<open>\<^verbatim>\<open>buffer.toString("base64")\<close>: three bytes give four characters, the rest is padded.\<close>

fun base64Encode :: "byte list \<Rightarrow> string" where
  "base64Encode [] = []"
| "base64Encode [a] =
     [base64Char (unat a div 4), base64Char (unat a mod 4 * 16), CHR ''='', CHR ''='']"
| "base64Encode [a, b] =
     [base64Char (unat a div 4), base64Char (unat a mod 4 * 16 + unat b div 16),
      base64Char (unat b mod 16 * 4), CHR ''='']"
| "base64Encode (a # b # c # rest) =
     [base64Char (unat a div 4), base64Char (unat a mod 4 * 16 + unat b div 16),
      base64Char (unat b mod 16 * 4 + unat c div 64), base64Char (unat c mod 64)]
     @ base64Encode rest"

text \<open>
  \<^verbatim>\<open>Buffer.from(text, "base64")\<close> is forgiving: it reads the standard and the URL-safe
  alphabet, passes over any other character, and stops at the first padding character.
\<close>

definition unbase64 :: "char \<Rightarrow> nat option" where
  "unbase64 c =
     (if c = CHR ''-'' then Some 62 else if c = CHR ''_'' then Some 63
      else indexOf c base64Alphabet)"

fun fromSextets :: "nat list \<Rightarrow> byte list" where
  "fromSextets (a # b # c # d # rest) =
     [word_of_nat (a * 4 + b div 16), word_of_nat (b mod 16 * 16 + c div 4),
      word_of_nat (c mod 4 * 64 + d)] @ fromSextets rest"
| "fromSextets [a, b, c] =
     [word_of_nat (a * 4 + b div 16), word_of_nat (b mod 16 * 16 + c div 4)]"
| "fromSextets [a, b] = [word_of_nat (a * 4 + b div 16)]"
| "fromSextets [a] = []"
| "fromSextets [] = []"

text \<open>The six-bit values read from a text: up to the first padding character.\<close>

definition sextets :: "string \<Rightarrow> nat list" where
  "sextets s = List.map_filter unbase64 (takeWhile (\<lambda>c. c \<noteq> CHR ''='') s)"

definition base64Decode :: "string \<Rightarrow> byte list" where
  "base64Decode s = fromSextets (sextets s)"

subsection \<open>Command line (getArgs, parseArgs, checkAddress)\<close>

datatype flag = FlagTrue | FlagValue string

record Args =
  positional :: "string list"
  flags :: "string \<Rightarrow> flag option"

definition getArgsStep :: "Args \<Rightarrow> string \<Rightarrow> Args" where
  "getArgsStep res arg =
     (if take 2 arg = ''--'' then
        (case splitOn (CHR ''='') arg of
           [] \<Rightarrow> res
         | longArg0 # values \<Rightarrow>
             res\<lparr>flags := (flags res)(drop 2 longArg0 \<mapsto>
               (case values of [] \<Rightarrow> FlagTrue | longArg1 # _ \<Rightarrow> FlagValue longArg1))\<rparr>)
      else if take 1 arg = ''-'' then
        res\<lparr>flags := fold (\<lambda>c f. f([c] \<mapsto> FlagTrue)) (drop 1 arg) (flags res)\<rparr>
      else res\<lparr>positional := positional res @ [arg]\<rparr>)"

text \<open>The argument is \<^verbatim>\<open>process.argv\<close> without its first two entries.\<close>

definition getArgs :: "string list \<Rightarrow> Args" where
  "getArgs argv = foldl getArgsStep \<lparr>positional = [], flags = Map.empty\<rparr> argv"

definition hexDigit :: "char \<Rightarrow> bool" where
  "hexDigit c = (c \<in> set ''0123456789abcdefABCDEF'')"

text \<open>The test of \<^verbatim>\<open>/^(?:-1|0):[\da-fA-F]{64}$/\<close>.\<close>

definition checkAddress :: "string \<Rightarrow> bool" where
  "checkAddress s =
     (if take 3 s = ''-1:'' then length (drop 3 s) = 64 \<and> list_all hexDigit (drop 3 s)
      else if take 2 s = ''0:'' then length (drop 2 s) = 64 \<and> list_all hexDigit (drop 2 s)
      else False)"

definition parseSwitch :: "Args \<Rightarrow> string \<Rightarrow> error + bool" where
  "parseSwitch args name =
     (case flags args name of
        Some FlagTrue \<Rightarrow> Inr True
      | Some (FlagValue v) \<Rightarrow>
          if v \<noteq> ''true'' \<and> v \<noteq> ''false''
          then Inl (Error (''Expected a boolean value for `'' @ name @ ''`''))
          else Inr (v = ''true'')
      | None \<Rightarrow> Inr False)"

fun joinWith :: "string \<Rightarrow> string list \<Rightarrow> string" where
  "joinWith sep [] = []"
| "joinWith sep [x] = x"
| "joinWith sep (x # xs) = x @ sep @ joinWith sep xs"

record parsedArgs =
  path :: string
  giver :: string
  sign :: string
  ignoreCache :: bool
  targetBalance :: string

definition separator :: string where
  "separator = [CHR 0x0A, CHR '' '', CHR '' '']"

text \<open>
  The required options are present exactly when the list \<^verbatim>\<open>missing\<close> is empty, so the
  checks after it read them from the matching case.
\<close>

definition parseArgs :: "Args \<Rightarrow> error + parsedArgs" where
  "parseArgs args =
     (case parseSwitch args ''ignore-cache'' of
        Inl e \<Rightarrow> Inl e
      | Inr ic \<Rightarrow>
          (let rpath = (case positional args of [] \<Rightarrow> None | x # _ \<Rightarrow> Some x);
               rgiver = (case flags args ''giver'' of Some (FlagValue g) \<Rightarrow> Some g | _ \<Rightarrow> None);
               rsign = (case flags args ''sign'' of Some (FlagValue g) \<Rightarrow> Some g | _ \<Rightarrow> None);
               rtarget = (case flags args ''target-balance'' of
                            None \<Rightarrow> FlagValue ''1000000000''
                          | Some FlagTrue \<Rightarrow> FlagTrue
                          | Some (FlagValue v) \<Rightarrow>
                              if v = [] then FlagValue ''1000000000'' else FlagValue v);
               missing = joinWith separator (filter (\<lambda>item. length item > 0)
                           [if rpath = None then ''path'' else [],
                            if rgiver = None then ''--giver'' else [],
                            if rsign = None then ''--sign'' else []])
           in (case (rpath, rgiver, rsign) of
                 (Some pa, Some g, Some sg) \<Rightarrow>
                   if \<not> checkAddress g then Inl (Error ''Invalid giver address'')
                   else (case rtarget of
                           FlagValue t \<Rightarrow>
                             Inr \<lparr>path = pa, giver = g, sign = sg, ignoreCache = ic,
                                  targetBalance = t\<rparr>
                         | FlagTrue \<Rightarrow>
                             Inl (Error ''Expected a number value for `target-balance`''))
               | _ \<Rightarrow> Inl (Error (''Required options not provided:'' @ separator @ missing)))))"

subsection \<open>Programs: effects, failures, divergence\<close>

text \<open>
  A program takes the world and gives the world it leaves with a value or the error it
  threw; \<open>None\<close> when it never comes back.
\<close>

type_synonym 'a prog = "world \<Rightarrow> (world \<times> (error + 'a)) option"

definition succeed :: "'a \<Rightarrow> 'a prog" where
  "succeed x w = Some (w, Inr x)"

definition throw :: "error \<Rightarrow> 'a prog" where
  "throw e w = Some (w, Inl e)"

definition andThen :: "'a prog \<Rightarrow> ('a \<Rightarrow> 'b prog) \<Rightarrow> 'b prog" where
  "andThen m f w =
     (case m w of
        None \<Rightarrow> None
      | Some (w', Inl e) \<Rightarrow> Some (w', Inl e)
      | Some (w', Inr x) \<Rightarrow> f x w')"

definition tryCatch :: "'a prog \<Rightarrow> (error \<Rightarrow> 'a prog) \<Rightarrow> 'a prog" where
  "tryCatch m h w =
     (case m w of
        None \<Rightarrow> None
      | Some (w', Inl e) \<Rightarrow> h e w'
      | Some (w', Inr x) \<Rightarrow> Some (w', Inr x))"

definition emit :: "event \<Rightarrow> unit prog" where
  "emit ev w = Some (w\<lparr>events := events w @ [ev]\<rparr>, Inr ())"

text \<open>A call to a collaborator: the call is recorded and its answer taken.\<close>

definition await :: "event \<Rightarrow> error + 'a \<Rightarrow> 'a prog" where
  "await ev r w = Some (w\<lparr>events := events w @ [ev]\<rparr>, r)"

definition awaitUnit :: "event \<Rightarrow> error option \<Rightarrow> unit prog" where
  "awaitUnit ev r = await ev (case r of None \<Rightarrow> Inr () | Some e \<Rightarrow> Inl e)"

subsection \<open>Files\<close>

definition sysError :: "string \<Rightarrow> string \<Rightarrow> string \<Rightarrow> error" where
  "sysError code call pa = SysError code (code @ '': '' @ call @ '' '' @ pa)"

text \<open>\<^verbatim>\<open>fs.stat(path).then((stats) => stats.isFile())\<close>\<close>

definition fsStatIsFile :: "string \<Rightarrow> bool prog" where
  "fsStatIsFile pa w =
     await (FsStat pa)
       (case files w pa of
          None \<Rightarrow> Inl (sysError ''ENOENT'' ''stat'' pa)
        | Some (File bs) \<Rightarrow> Inr True
        | Some Directory \<Rightarrow> Inr False
        | Some Denied \<Rightarrow> Inl (sysError ''EACCES'' ''stat'' pa)) w"

definition fsReadFile :: "string \<Rightarrow> byte list prog" where
  "fsReadFile pa w =
     await (FsReadFile pa)
       (case files w pa of
          None \<Rightarrow> Inl (sysError ''ENOENT'' ''open'' pa)
        | Some (File bs) \<Rightarrow> Inr bs
        | Some Directory \<Rightarrow> Inl (sysError ''EISDIR'' ''read'' pa)
        | Some Denied \<Rightarrow> Inl (sysError ''EACCES'' ''open'' pa)) w"

definition fsWriteFile :: "string \<Rightarrow> byte list \<Rightarrow> unit prog" where
  "fsWriteFile pa bs w =
     (case files w pa of
        Some Directory \<Rightarrow> await (FsWriteFile pa bs) (Inl (sysError ''EISDIR'' ''open'' pa)) w
      | Some Denied \<Rightarrow> await (FsWriteFile pa bs) (Inl (sysError ''EACCES'' ''open'' pa)) w
      | _ \<Rightarrow> await (FsWriteFile pa bs) (Inr ()) (w\<lparr>files := (files w)(pa \<mapsto> File bs)\<rparr>))"

text \<open>\<^verbatim>\<open>fs.mkdir(path, { recursive: true })\<close>\<close>

definition fsMkdir :: "string \<Rightarrow> unit prog" where
  "fsMkdir pa w =
     (case files w pa of
        None \<Rightarrow> await (FsMkdir pa) (Inr ()) (w\<lparr>files := (files w)(pa \<mapsto> Directory)\<rparr>)
      | Some Directory \<Rightarrow> await (FsMkdir pa) (Inr ()) w
      | Some (File bs) \<Rightarrow> await (FsMkdir pa) (Inl (sysError ''EEXIST'' ''mkdir'' pa)) w
      | Some Denied \<Rightarrow> await (FsMkdir pa) (Inl (sysError ''EACCES'' ''mkdir'' pa)) w)"

subsection \<open>Funding account (guessGiverAccount)\<close>

definition guessGiverAccount :: "env \<Rightarrow> address \<Rightarrow> string \<Rightarrow> account prog" where
  "guessGiverAccount p a publicKey =
     andThen (await (GetFullContractState a) (getFullContractState p a)) (\<lambda>st.
       case st of
         None \<Rightarrow> throw (Error ''Giver account not found'')
       | Some s \<Rightarrow>
           (case codeHash s of
              None \<Rightarrow> throw (Error ''Giver account is uninit'')
            | Some h \<Rightarrow>
                if h = ''84dafa449f98a6987789ba232358072bc0f76dc4524002a5d0918b9a75d2d599''
                then succeed (WalletV3Account a)
                else if h = ''0b3a887aeacd2a7d40bb5550bc9253156a029065aefb6d6b583735d58da9d5be''
                then succeed (HighloadWalletV2 a)
                else if h = ''3ba6528ab2694c118180aa3bd10dd19ff400b909ab4dcf58fc69925b2c7b12a6''
                then succeed (EverWalletAccount a)
                else if h = ''ccbfc821853aa641af3813ebd477e26818b51e4ca23e5f6d34509215aa7123d9''
                then succeed (GiverAccount a publicKey)
                else throw (Error ''Unknown contract'')))"

subsection \<open>Address list (readAccounts)\<close>

definition readAccounts :: "env \<Rightarrow> string \<Rightarrow> address list prog" where
  "readAccounts p pa =
     andThen (await (ReadTextFile pa) (readTextFile p pa)) (\<lambda>contents.
       succeed (filter (\<lambda>trimmed. trimmed \<noteq> []) (map trim (splitLines contents))))"

subsection \<open>State reconstruction (applyState)\<close>

definition STATES_API_URL :: string where
  "STATES_API_URL = ''https://states.everscan.io''"

definition CACHE_DIR :: string where
  "CACHE_DIR = ''heatwave-states''"

definition TIMESTAMP_BIAS :: int where
  "TIMESTAMP_BIAS = 3600"

text \<open>The search with its calls to the provider written to the world.\<close>

definition locate :: "env \<Rightarrow> address \<Rightarrow> string prog" where
  "locate p a w =
     (case freezeTransactionLt p a of
        None \<Rightarrow> None
      | Some (asked, seen, r) \<Rightarrow>
          Some (w\<lparr>events := events w @ map (GetTransactions a) asked\<rparr>, r))"

definition applyBody :: "address \<Rightarrow> string \<Rightarrow> string" where
  "applyBody a l = ''{\"account\":\"'' @ a @ ''\",\"lt\":'' @ l @ ''}''"

definition applyState :: "env \<Rightarrow> address \<Rightarrow> string prog" where
  "applyState p a =
     andThen (emit (ConsoleLog ''  searching for freeze transaction'')) (\<lambda>_.
     andThen (locate p a) (\<lambda>l.
     andThen (emit (ConsoleLog (''  applying state at logical time '' @ l))) (\<lambda>_.
     andThen (await (PostApply (applyBody a l)) (postApply p (applyBody a l))) (\<lambda>res.
     andThen (case res of ReplyOk accountBoc \<Rightarrow> succeed accountBoc
                        | ReplyNotOk e \<Rightarrow> throw (Thrown e)) (\<lambda>fullState.
       case parseFullAccountStateInit p fullState of
         Inl e \<Rightarrow> throw e
       | Inr None \<Rightarrow> throw (Error ''Empty state'')
       | Inr (Some stateInit) \<Rightarrow> succeed stateInit)))))"

subsection \<open>State cache (prepareStates, lines 340-362 and 366-367)\<close>

text \<open>The read path: skipped under \<^verbatim>\<open>ignoreCache\<close>, a miss when the file is not there.\<close>

definition cacheTryGet :: "bool \<Rightarrow> string \<Rightarrow> string option prog" where
  "cacheTryGet ignoreCache' statePath =
     (if \<not> ignoreCache' then
        andThen (tryCatch (fsStatIsFile statePath) (\<lambda>e.
                   case e of
                     SysError code m \<Rightarrow> if code = ''ENOENT'' then succeed False else throw e
                   | _ \<Rightarrow> throw e)) (\<lambda>stateExists.
          if stateExists
          then andThen (fsReadFile statePath) (\<lambda>data. succeed (Some (base64Encode data)))
          else succeed None)
      else succeed None)"

text \<open>The write path: the decoded bytes of the state, to the account's file.\<close>

definition cachePut :: "string \<Rightarrow> string \<Rightarrow> unit prog" where
  "cachePut statePath state' = fsWriteFile statePath (base64Decode state')"

subsection \<open>Preparing the accounts (prepareStates)\<close>

text \<open>
  The body of the \<^verbatim>\<open>try\<close> block for one address, in two parts: the debt estimate
  (lines 317-337), then the cached state or the rebuilt one (lines 339-373).
\<close>

definition estimateDebt :: "env \<Rightarrow> int \<Rightarrow> address \<Rightarrow> string prog" where
  "estimateDebt p timestamp a =
     andThen (await (GetFullContractState a) (getFullContractState p a)) (\<lambda>accountState.
       case accountState of
         None \<Rightarrow> throw (Error ''Account is uninit'')
       | Some st \<Rightarrow>
     andThen (await (ComputeStorageFee st (take 2 a = ''-1'') timestamp)
                (computeStorageFee p st (take 2 a = ''-1'') timestamp)) (\<lambda>account.
       if accountStatus account \<noteq> Frozen \<and> accountStatus account \<noteq> Nonexist
       then throw (Error ''Account is not frozen'')
       else
     andThen (emit (ConsoleLog (''  storage fee debt: '' @
                (case storageFee.storageFeeDebt account of Some d \<Rightarrow> d | None \<Rightarrow> ''0''))))
       (\<lambda>_. succeed
          (case storageFee.storageFeeDebt account of Some d \<Rightarrow> d | None \<Rightarrow> ''0''))))"

definition prepareAccount ::
  "env \<Rightarrow> bool \<Rightarrow> int \<Rightarrow> string \<Rightarrow> address \<Rightarrow> FrozenAccount prog" where
  "prepareAccount p ignoreCache' timestamp statePath a =
     andThen (estimateDebt p timestamp a) (\<lambda>debt.
     andThen (cacheTryGet ignoreCache' statePath) (\<lambda>cached.
       case cached of
         Some data \<Rightarrow>
           andThen (emit (ConsoleLog ''  using cached state'')) (\<lambda>_.
             succeed \<lparr>address = a, state = data, storageFeeDebt = debt\<rparr>)
       | None \<Rightarrow>
     andThen (applyState p a) (\<lambda>state'.
     andThen (cachePut statePath state') (\<lambda>_.
     andThen (emit (ConsoleLog ''  updated cached state'')) (\<lambda>_.
       succeed \<lparr>address = a, state = state', storageFeeDebt = debt\<rparr>)))))"

text \<open>One round of the \<^verbatim>\<open>for\<close> loop: the progress line, the body, and the handler.\<close>

definition prepareStep ::
  "env \<Rightarrow> bool \<Rightarrow> int \<Rightarrow> string \<Rightarrow> nat \<Rightarrow> nat \<Rightarrow> address \<Rightarrow> FrozenAccount list
   \<Rightarrow> FrozenAccount list prog" where
  "prepareStep p ignoreCache' timestamp cacheDirPath total' current a result =
     andThen (emit (ConsoleLog (''['' @ padStart (length (showNat total')) (showNat current)
                @ ''/'' @ showNat total' @ ''] Preparing account '' @ a))) (\<lambda>_.
       tryCatch
         (andThen (prepareAccount p ignoreCache' timestamp (pathJoin cacheDirPath a) a)
            (\<lambda>item. succeed (result @ [item])))
         (\<lambda>e. andThen (emit (ConsoleError (''  skipping: '' @ messageText e)))
            (\<lambda>_. succeed result)))"

fun prepareLoop ::
  "env \<Rightarrow> bool \<Rightarrow> int \<Rightarrow> string \<Rightarrow> nat \<Rightarrow> nat \<Rightarrow> address list \<Rightarrow> FrozenAccount list
   \<Rightarrow> FrozenAccount list prog" where
  "prepareLoop p ic ts dir total' current [] result = succeed result"
| "prepareLoop p ic ts dir total' current (a # rest) result =
     andThen (prepareStep p ic ts dir total' (current + 1) a result)
       (\<lambda>result'. prepareLoop p ic ts dir total' (current + 1) rest result')"

definition prepareStates :: "env \<Rightarrow> address list \<Rightarrow> bool \<Rightarrow> FrozenAccount list prog" where
  "prepareStates p accounts ignoreCache' =
     andThen (fsMkdir (pathJoin (tmpdir p) CACHE_DIR)) (\<lambda>_.
       prepareLoop p ignoreCache' (TIMESTAMP_BIAS + toInt32 (truncDiv (clockTime p) 1000))
         (pathJoin (tmpdir p) CACHE_DIR) (length accounts) 0 accounts [])"

subsection \<open>Redeploying (app, lines 170-189)\<close>

definition TX_FEE :: int where
  "TX_FEE = 100000000"

text \<open>The funding amount, from the two decimal texts the program holds.\<close>

definition fundingAmount :: "string \<Rightarrow> string \<Rightarrow> error + int" where
  "fundingAmount debt target =
     (case BigInt debt of
        Inl e \<Rightarrow> Inl e
      | Inr d \<Rightarrow> (case BigInt target of Inl e \<Rightarrow> Inl e | Inr t \<Rightarrow> Inr (d + t + TX_FEE)))"

fun unfreezeLoop :: "env \<Rightarrow> address \<Rightarrow> address \<Rightarrow> string \<Rightarrow> FrozenAccount list \<Rightarrow> unit prog" where
  "unfreezeLoop p microwave giverAddress target [] = succeed ()"
| "unfreezeLoop p microwave giverAddress target (item # rest) =
     (case fundingAmount (storageFeeDebt item) target of
        Inl e \<Rightarrow> throw e
      | Inr amount' \<Rightarrow>
     andThen (emit (ConsoleLog (''Unfreezing account '' @ address item))) (\<lambda>_.
     andThen (await (SendMessage \<lparr>contract = microwave, dest = address item,
                       state_init = state item, sender = giverAddress, amount = amount',
                       bounce = False\<rparr>)
                (sendMessage p \<lparr>contract = microwave, dest = address item,
                       state_init = state item, sender = giverAddress, amount = amount',
                       bounce = False\<rparr>)) (\<lambda>tx.
     andThen (emit (ConsoleLog (''  waiting for tx '' @ hash tx))) (\<lambda>_.
     andThen (awaitUnit (TraceFinished tx) (traceFinished p tx)) (\<lambda>_.
     andThen (emit (ConsoleLog ''  done'')) (\<lambda>_.
       unfreezeLoop p microwave giverAddress target rest))))))"

subsection \<open>The run (app and the module's last lines)\<close>

definition MICROWAVE_BOC :: string where
  "MICROWAVE_BOC = ''te6ccgEBCQEA3gACATQDAQEBwAIAQ9AAAAAACAAAAAAAAAAAAAAAAAAAAAAAAAAAAAAAAAAAACACKP8AIMEB9KQgWJL0oOBfAoog7VPZBgQBCvSkIPShBQAAAQPQQAcB/gHQ0wABwADysNYB0wAwwADyvDAgxwGa7UDtUHADXwPbMAHAAI5QMAHTH4IQU8UVHyIBuZcwwADyfPI84IIQU8UVHxK68ryCEDuaygBw+wLIgBDPCwUB+kACznD6AnbPC2sB1DABzMmBAID7ACBwcFkBVQFVAtkgWQFVAeAixwIIAAzAACIiAeI=''"

definition readKeys :: "env \<Rightarrow> string \<Rightarrow> string prog" where
  "readKeys p pa =
     andThen (await (LoadKeyFile pa) (loadKeyFile p pa)) (\<lambda>data.
       case data of
         KeyNull \<Rightarrow> throw (Error ''Cannot read properties of null'')
       | KeyNotObject \<Rightarrow> throw (Error ''Invalid keys'')
       | KeyObject (Some pub) (Some sec) \<Rightarrow> succeed pub
       | KeyObject _ _ \<Rightarrow> throw (Error ''Invalid keys''))"

definition app :: "env \<Rightarrow> Args \<Rightarrow> unit prog" where
  "app p args =
     (case parseArgs args of
        Inl e \<Rightarrow> throw e
      | Inr parsed \<Rightarrow>
     andThen (readKeys p (pathResolve (dirname p) (sign parsed))) (\<lambda>publicKey.
     andThen (awaitUnit EnsureInitialized (ensureInitialized p)) (\<lambda>_.
     andThen (guessGiverAccount p (giver parsed) publicKey) (\<lambda>giverAccount.
     andThen (readAccounts p (path parsed)) (\<lambda>accounts.
     andThen (emit (ConsoleLog (''Input: '' @ showNat (length accounts) @ '' accounts''))) (\<lambda>_.
     andThen (await (GetBocHash MICROWAVE_BOC) (getBocHash p MICROWAVE_BOC)) (\<lambda>h.
     andThen (emit (ConsoleLog (''Microwave address: '' @ ''0:'' @ h))) (\<lambda>_.
     andThen (emit (ConsoleLog ''Preparing states'')) (\<lambda>_.
     andThen (prepareStates p accounts (ignoreCache parsed)) (\<lambda>states.
     andThen (emit (ConsoleLog ''Unfreezing contracts'')) (\<lambda>_.
     andThen (unfreezeLoop p (''0:'' @ h) (giver parsed) (targetBalance parsed) states) (\<lambda>_.
       emit (Exit 0)))))))))))))"

definition usage :: string where
  "usage = concat (map (\<lambda>l. l @ [CHR 0x0A])
     [''Usage: npm run unfreeze <path> --giver=<wallet> --sign=<sign> [--target-balance=<target-balance>] [--ignore-cache]'',
      [],
      ''A tool for unfreezing Everscale accounts.'',
      [],
      ''Positional Arguments:'',
      ''  param             path to the CSV file with accounts list'',
      [],
      ''Options:'',
      ''  --giver           giver contract address'',
      ''  --sign            path to keys.json'',
      ''  --target-balance  target balance in nano EVERs; default: 1000000000'',
      ''  --ignore-cache    ignore computed states cache'',
      ''  --help            display usage information''])"

text \<open>The module body: the help switch, then \<^verbatim>\<open>app(args).catch(...)\<close>.\<close>

definition main :: "env \<Rightarrow> string list \<Rightarrow> unit prog" where
  "main p argv =
     (if flags (getArgs argv) ''h'' \<noteq> None \<or> flags (getArgs argv) ''help'' \<noteq> None
      then andThen (emit (ConsoleLog usage)) (\<lambda>_. emit (Exit 1))
      else tryCatch (app p (getArgs argv))
             (\<lambda>e. andThen (emit (ConsoleLog (messageText e))) (\<lambda>_. emit (Exit 1))))"

subsection \<open>Reading the events\<close>

text \<open>
  The call by which each stage of an account's pipeline shows in the events: the fee
  facility, the cache file read, the transaction pages, the archive, the cache file
  written, the relay.
\<close>

datatype stage =
    StorageDebtEstimator
  | StateCacheLookup
  | FreezePointLocator
  | StateReconstructor
  | StateCacheStore
  | RedeployDriver

fun stageOf :: "event \<Rightarrow> stage option" where
  "stageOf (ComputeStorageFee st mc ts) = Some StorageDebtEstimator"
| "stageOf (FsStat pa) = Some StateCacheLookup"
| "stageOf (FsReadFile pa) = Some StateCacheLookup"
| "stageOf (GetTransactions a c) = Some FreezePointLocator"
| "stageOf (PostApply b) = Some StateReconstructor"
| "stageOf (FsWriteFile pa bs) = Some StateCacheStore"
| "stageOf (SendMessage r) = Some RedeployDriver"
| "stageOf (TraceFinished t) = Some RedeployDriver"
| "stageOf _ = None"

text \<open>The stages an event list goes through, each run of one stage counted once.\<close>

definition stagesOf :: "event list \<Rightarrow> stage list" where
  "stagesOf evs = remdups_adj (List.map_filter stageOf evs)"

text \<open>The place of a stage in the order the program runs them.\<close>

fun stageRank :: "stage \<Rightarrow> nat" where
  "stageRank StorageDebtEstimator = 0"
| "stageRank StateCacheLookup = 1"
| "stageRank FreezePointLocator = 2"
| "stageRank StateReconstructor = 3"
| "stageRank StateCacheStore = 4"
| "stageRank RedeployDriver = 5"

definition ranks :: "event list \<Rightarrow> nat list" where
  "ranks evs = map stageRank (List.map_filter stageOf evs)"

text \<open>The accounts whose pipeline was started, and the accounts skipped, by the events.\<close>

fun started :: "event list \<Rightarrow> address list" where
  "started [] = []"
| "started (GetFullContractState a # evs) = a # started evs"
| "started (_ # evs) = started evs"

fun skipped :: "event list \<Rightarrow> string list" where
  "skipped [] = []"
| "skipped (ConsoleError s # evs) = s # skipped evs"
| "skipped (_ # evs) = skipped evs"


text \<open>The code fingerprints the funding-account resolver recognizes.\<close>

definition knownCodeHashes :: "string list" where
  "knownCodeHashes =
     [''84dafa449f98a6987789ba232358072bc0f76dc4524002a5d0918b9a75d2d599'',
      ''0b3a887aeacd2a7d40bb5550bc9253156a029065aefb6d6b583735d58da9d5be'',
      ''3ba6528ab2694c118180aa3bd10dd19ff400b909ab4dcf58fc69925b2c7b12a6'',
      ''ccbfc821853aa641af3813ebd477e26818b51e4ca23e5f6d34509215aa7123d9'']"

text \<open>
  The shape of a funding address in words: workchain "-1" or "0", a colon, and exactly 64
  hexadecimal digits.
\<close>

definition giverShape :: "string \<Rightarrow> bool" where
  "giverShape g =
     (\<exists>wc ds. g = wc @ '':'' @ ds \<and> (wc = ''-1'' \<or> wc = ''0'') \<and> length ds = 64 \<and>
        (\<forall>d\<in>set ds. d \<in> set ''0123456789'' \<or> d \<in> set ''abcdef'' \<or> d \<in> set ''ABCDEF''))"

subsection \<open>Sample collaborators\<close>

text \<open>A provider, archive and file system that answer nothing.\<close>

definition offline :: env where
  "offline =
     \<lparr>tmpdir = ''/tmp'', dirname = ''/app'', clockTime = 1700000000000,
      loadKeyFile = (\<lambda>_. Inl (Error ''offline'')),
      readTextFile = (\<lambda>_. Inl (Error ''offline'')),
      ensureInitialized = Some (Error ''offline''),
      getFullContractState = (\<lambda>_. Inl (Error ''offline'')),
      computeStorageFee = (\<lambda>_ _ _. Inl (Error ''offline'')),
      getTransactions = (\<lambda>_ _. Inl (Error ''offline'')),
      getBocHash = (\<lambda>_. Inl (Error ''offline'')),
      postApply = (\<lambda>_. Inl (Error ''offline'')),
      parseFullAccountStateInit = (\<lambda>_. Inl (Error ''offline'')),
      sendMessage = (\<lambda>_. Inl (Error ''offline'')),
      traceFinished = (\<lambda>_. Some (Error ''offline''))\<rparr>"

definition tx :: "string \<Rightarrow> accountStatus \<Rightarrow> accountStatus \<Rightarrow> transaction" where
  "tx l orig end' = \<lparr>txId = \<lparr>lt = l, hash = ''h'' @ l\<rparr>, origStatus = orig, endStatus = end'\<rparr>"

definition token :: "string \<Rightarrow> transactionId" where
  "token l = \<lparr>lt = l, hash = ''h'' @ l\<rparr>"

text \<open>
  A history in two pages: the newest record found the account frozen and left it so, the
  one before froze it; a third page would follow.
\<close>

definition pageNew :: batch where
  "pageNew = \<lparr>transactions = [tx ''9'' Frozen Frozen], continuation = Some (token ''9'')\<rparr>"

definition pageOld :: batch where
  "pageOld = \<lparr>transactions = [tx ''8'' Active Frozen, tx ''7'' Uninit Active],
              continuation = Some (token ''7'')\<rparr>"

definition twoPages :: env where
  "twoPages = offline\<lparr>getTransactions :=
     (\<lambda>a c. if c = None then Inr pageNew
             else if c = Some (token ''9'') then Inr pageOld
             else Inl (Error ''no such page''))\<rparr>"

text \<open>Histories of one page with no continuation.\<close>

definition onePage :: "transaction list \<Rightarrow> env" where
  "onePage ts = offline\<lparr>getTransactions :=
     (\<lambda>a c. Inr \<lparr>transactions = ts, continuation = None\<rparr>)\<rparr>"

text \<open>A disk with nothing on it, and no event yet.\<close>

definition emptyDisk :: world where
  "emptyDisk = \<lparr>files = Map.empty, events = []\<rparr>"

definition giverAddress :: address where
  "giverAddress = ''0:0000000000000000000000000000000000000000000000000000000000000000''"

text \<open>
  A chain with a funding account of the fourth kind and frozen accounts whose history is
  that of \<open>twoPages\<close>; accounts of the masterchain owe 250, the others have no debt figure.
\<close>

definition chain :: env where
  "chain = twoPages\<lparr>
     loadKeyFile := (\<lambda>_. Inr (KeyObject (Some ''pub'') (Some ''sec''))),
     readTextFile := (\<lambda>_. Inr (''0:aa'' @ [CHR 0x0A] @ ''-1:bb'' @ [CHR 0x0A])),
     ensureInitialized := None,
     getFullContractState := (\<lambda>a.
        if a = giverAddress
        then Inr (Some \<lparr>codeHash =
               Some ''ccbfc821853aa641af3813ebd477e26818b51e4ca23e5f6d34509215aa7123d9'',
               boc = ''giver''\<rparr>)
        else Inr (Some \<lparr>codeHash = None, boc = ''frozen''\<rparr>)),
     computeStorageFee := (\<lambda>st mc ts.
        Inr \<lparr>accountStatus = Frozen, storageFeeDebt = (if mc then Some ''250'' else None)\<rparr>),
     getBocHash := (\<lambda>_. Inr ''cafe''),
     postApply := (\<lambda>_. Inr (ReplyOk ''boc'')),
     parseFullAccountStateInit := (\<lambda>_. Inr (Some ''QUJD'')),
     sendMessage := (\<lambda>r. Inr (token ''100'')),
     traceFinished := (\<lambda>_. None)\<rparr>"


text \<open>A disk that holds a cached state for both accounts of the list.\<close>

definition warmDisk :: world where
  "warmDisk = \<lparr>files = [''/tmp/heatwave-states/0:aa'' \<mapsto> File [1, 2, 3],
                          ''/tmp/heatwave-states/-1:bb'' \<mapsto> File [4, 5]],
                events = []\<rparr>"

text \<open>The same chain with a fee facility that finds every account active.\<close>

definition chainActive :: env where
  "chainActive = chain\<lparr>computeStorageFee :=
     (\<lambda>st mc ts. Inr \<lparr>accountStatus = Active, storageFeeDebt = Some ''7''\<rparr>)\<rparr>"


text \<open>An otherwise silent chain whose funding account shows a given state.\<close>

definition giverWith :: "contractState option \<Rightarrow> env" where
  "giverWith s = offline\<lparr>getFullContractState := (\<lambda>a. Inr s)\<rparr>"


subsection \<open>Reasoning about programs\<close>

text \<open>What holds of the world and the outcome whenever the program comes back.\<close>

definition wp :: "'a prog \<Rightarrow> (world \<Rightarrow> error + 'a \<Rightarrow> bool) \<Rightarrow> world \<Rightarrow> bool" where
  "wp m Q w = (\<forall>w' r. m w = Some (w', r) \<longrightarrow> Q w' r)"

section \<open>Properties\<close>

subsection \<open>Freeze point search\<close>

lemma scanBatch_append:
  "scanBatch (xs @ ys) =
     (case scanBatch xs of
        (n, Inr None) \<Rightarrow> (case scanBatch ys of (k, r) \<Rightarrow> (n + k, r))
      | d \<Rightarrow> d)"
  by (induction xs) (auto split: prod.splits sum.splits option.splits)

lemma scanBatch_frozen:
  "\<forall>t\<in>set xs. origStatus t = Frozen \<and> endStatus t = Frozen \<Longrightarrow>
   scanBatch xs = (length xs, Inr None)"
  by (induction xs) auto

lemma history_Cons: "history (b # bs) = transactions b @ history bs"
  by (simp add: history_def)

lemma history_snoc: "history (bs @ [b]) = history bs @ transactions b"
  by (simp add: history_def)

lemma pagesFrom_Cons:
  assumes "pagesFrom p a c (Suc (Suc n)) = Some (x # xs)"
  shows "getTransactions p a c = Inr x \<and>
         (\<exists>c'. continuation x = Some c' \<and> pagesFrom p a (Some c') (Suc n) = Some xs)"
proof (cases "getTransactions p a c")
  case (Inl e)
  with assms show ?thesis by (simp del: pagesFrom.simps add: pagesFrom.simps(2)[of p a c])
next
  case (Inr b)
  show ?thesis
  proof (cases "continuation b")
    case None
    with Inr assms show ?thesis by (simp del: pagesFrom.simps add: pagesFrom.simps(2)[of p a c])
  next
    case (Some c')
    with Inr assms have "map_option ((#) b) (pagesFrom p a (Some c') (Suc n)) = Some (x # xs)"
      by (simp del: pagesFrom.simps add: pagesFrom.simps(2)[of p a c])
    then have "b = x" and "pagesFrom p a (Some c') (Suc n) = Some xs"
      by (auto simp del: pagesFrom.simps)
    with Inr Some show ?thesis by (simp del: pagesFrom.simps)
  qed
qed

lemma pagesFrom_single:
  assumes "pagesFrom p a c (Suc 0) = Some xs"
  shows "\<exists>b. xs = [b] \<and> getTransactions p a c = Inr b"
  using assms by (auto split: sum.splits)

text \<open>Pages that decide nothing are passed over.\<close>

lemma searchFreeze_skip:
  assumes "pagesFrom p a c (Suc (length pre)) = Some (pre @ [b])"
      and "scanBatch (history pre) = (m, Inr None)"
  shows "searchFreeze p a c asked seen =
         searchFreeze p a (last (c # map continuation pre))
           (asked @ butlast (c # map continuation pre)) (seen + m)"
  using assms
proof (induction pre arbitrary: c asked seen m)
  case Nil
  then show ?case by (simp add: history_def)
next
  case (Cons x pre)
  from Cons.prems(1) have gx: "getTransactions p a c = Inr x"
    and "\<exists>c'. continuation x = Some c' \<and> pagesFrom p a (Some c') (Suc (length pre)) = Some (pre @ [b])"
    using pagesFrom_Cons[of p a c "length pre" x "pre @ [b]"] by auto
  then obtain c' where cx: "continuation x = Some c'"
    and rest: "pagesFrom p a (Some c') (Suc (length pre)) = Some (pre @ [b])" by blast
  from Cons.prems(2) obtain m1 m2 where
    s1: "scanBatch (transactions x) = (m1, Inr None)" and
    s2: "scanBatch (history pre) = (m2, Inr None)" and m: "m = m1 + m2"
    by (auto simp: history_Cons scanBatch_append split: prod.splits sum.splits option.splits)
  have "searchFreeze p a c asked seen = searchFreeze p a (Some c') (asked @ [c]) (seen + m1)"
    by (subst searchFreeze.simps) (simp add: gx s1 cx)
  also have "\<dots> = searchFreeze p a (last (Some c' # map continuation pre))
           ((asked @ [c]) @ butlast (Some c' # map continuation pre)) (seen + m1 + m2)"
    by (rule Cons.IH[OF rest s2])
  finally show ?case by (simp add: cx m add.assoc)
qed

lemma pagesFrom_last:
  assumes "pagesFrom p a c (Suc (length pre)) = Some (pre @ [b])"
  shows "getTransactions p a (last (c # map continuation pre)) = Inr b"
  using assms
proof (induction pre arbitrary: c)
  case Nil
  then show ?case by (auto split: sum.splits)
next
  case (Cons x pre)
  from Cons.prems obtain c' where cx: "continuation x = Some c'"
    and rest: "pagesFrom p a (Some c') (Suc (length pre)) = Some (pre @ [b])"
    using pagesFrom_Cons[of p a c "length pre" x "pre @ [b]"] by auto
  from Cons.IH[OF rest] show ?case by (simp add: cx)
qed

text \<open>The search, once the pages before the last one served have decided nothing.\<close>

lemma searchFreeze_pages:
  assumes "pagesFrom p a c (Suc (length pre)) = Some (pre @ [b])"
      and "scanBatch (history pre) = (m, Inr None)"
  shows "searchFreeze p a c asked seen =
     (case scanBatch (transactions b) of
        (n, Inl e) \<Rightarrow> Some (asked @ c # map continuation pre, seen + m + n, Inl e)
      | (n, Inr (Some l)) \<Rightarrow> Some (asked @ c # map continuation pre, seen + m + n, Inr l)
      | (n, Inr None) \<Rightarrow>
          (case continuation b of
             None \<Rightarrow> Some (asked @ c # map continuation pre, seen + m + n,
                       Inl (Error ''Freeze transaction not found''))
           | Some c' \<Rightarrow> searchFreeze p a (Some c') (asked @ c # map continuation pre) (seen + m + n)))"
proof -
  have ap: "(asked @ butlast (c # map continuation pre)) @ [last (c # map continuation pre)]
        = asked @ c # map continuation pre"
    by (metis append.assoc append_butlast_last_id list.distinct(1))
  show ?thesis
    apply (subst searchFreeze_skip[OF assms])
    apply (subst searchFreeze.simps)
    apply (simp only: pagesFrom_last[OF assms(1)] ap sum.case)
    done
qed

text \<open>
  A history that ends after finitely many pages makes the search come back, whatever the
  pages hold; so does a provider that refuses the first page.
\<close>

lemma searchFreeze_halts:
  assumes "pagesFrom p a c (Suc (length pre)) = Some (pre @ [b])"
      and "continuation b = None"
  shows "searchFreeze p a c asked seen \<noteq> None"
  using assms(1)
proof (induction pre arbitrary: c asked seen)
  case Nil
  then have gb: "getTransactions p a c = Inr b" by (auto split: sum.splits)
  show ?case
    by (subst searchFreeze.simps)
       (simp add: gb assms(2) split: prod.splits sum.splits option.splits)
next
  case (Cons x pre)
  from Cons.prems obtain c' where gx: "getTransactions p a c = Inr x"
    and cx: "continuation x = Some c'"
    and rest: "pagesFrom p a (Some c') (Suc (length pre)) = Some (pre @ [b])"
    using pagesFrom_Cons[of p a c "length pre" x "pre @ [b]"] by auto
  have ih: "\<And>asked seen. \<exists>r. searchFreeze p a (Some c') asked seen = Some r"
    using Cons.IH[OF rest] by auto
  show ?case
    by (subst searchFreeze.simps) (use ih in \<open>auto simp: gx cx split: prod.splits sum.splits option.splits\<close>)
qed

lemma freezeTransactionLt_halts:
  assumes "pagesFrom p a None (Suc (length pre)) = Some (pre @ [b])"
      and "continuation b = None"
  shows "freezeTransactionLt p a \<noteq> None"
  unfolding freezeTransactionLt_def by (rule searchFreeze_halts[OF assms])

lemma freezeTransactionLt_refused:
  assumes "getTransactions p a None = Inl e"
  shows "freezeTransactionLt p a = Some ([None], 0, Inl e)"
  unfolding freezeTransactionLt_def by (subst searchFreeze.simps) (simp add: assms)

text \<open>
  Claim C2. When the history of an account, read newest first across the pages the
  provider serves, starts with a record that found the account frozen and left it frozen,
  followed by a record whose origin status is not frozen (and whose end status is), the
  search returns the logical time of that second record. It has then looked at exactly
  two records, and has asked for exactly the pages up to the one that holds the second
  record: whatever continuation that page carries is not followed.
\<close>

theorem locate_freeze_transition:
  assumes served: "pagesFrom p a None (Suc (length pre)) = Some (pre @ [b])"
      and hist: "history (pre @ [b]) = t1 # t2 # older"
      and inlast: "length (history pre) \<le> 1"
      and t1: "origStatus t1 = Frozen" "endStatus t1 = Frozen"
      and t2: "origStatus t2 \<noteq> Frozen" "endStatus t2 = Frozen"
  shows "freezeTransactionLt p a = Some (None # map continuation pre, 2, Inr (lt (txId t2)))"
proof -
  from hist have cat: "history pre @ transactions b = t1 # t2 # older"
    by (simp add: history_snoc)
  from inlast consider "history pre = []" | x where "history pre = [x]"
    by (cases "history pre") auto
  then obtain m n where
    pre: "scanBatch (history pre) = (m, Inr None)" and
    last: "scanBatch (transactions b) = (n, Inr (Some (lt (txId t2))))" and
    sum: "m + n = 2"
  proof cases
    case 1
    with cat have "transactions b = t1 # t2 # older" by simp
    with 1 t1 t2 show ?thesis by (intro that[of 0 2]) simp_all
  next
    case (2 x)
    with cat have "x = t1" "transactions b = t2 # older" by simp_all
    with 2 t1 t2 show ?thesis by (intro that[of 1 1]) simp_all
  qed
  show ?thesis
    unfolding freezeTransactionLt_def
    by (subst searchFreeze_pages[OF served pre]) (simp add: last sum)
qed

text \<open>
  An instance: the two-page history of \<open>twoPages\<close>, whose second page announces a
  third one.
\<close>

theorem locate_freeze_transition_witness:
  "pagesFrom twoPages ''0:aa'' None 2 = Some [pageNew, pageOld] \<and>
   history [pageNew, pageOld] =
     [tx ''9'' Frozen Frozen, tx ''8'' Active Frozen, tx ''7'' Uninit Active] \<and>
   freezeTransactionLt twoPages ''0:aa'' = Some ([None, Some (token ''9'')], 2, Inr ''8'')"
proof -
  have served: "pagesFrom twoPages ''0:aa'' None (Suc (length [pageNew])) = Some ([pageNew] @ [pageOld])"
    by (simp add: twoPages_def offline_def pageNew_def pageOld_def token_def)
  have hist: "history ([pageNew] @ [pageOld]) =
      tx ''9'' Frozen Frozen # tx ''8'' Active Frozen # [tx ''7'' Uninit Active]"
    by (simp add: history_def pageNew_def pageOld_def)
  have inlast: "length (history [pageNew]) \<le> 1"
    by (simp add: history_def pageNew_def)
  have "freezeTransactionLt twoPages ''0:aa'' =
      Some (None # map continuation [pageNew], 2, Inr (lt (txId (tx ''8'' Active Frozen))))"
    by (rule locate_freeze_transition[OF served hist inlast]) (simp_all add: tx_def)
  then have found: "freezeTransactionLt twoPages ''0:aa'' =
      Some ([None, Some (token ''9'')], 2, Inr ''8'')"
    by (simp add: pageNew_def tx_def)
  from served have two: "pagesFrom twoPages ''0:aa'' None 2 = Some [pageNew, pageOld]"
    by (simp add: numeral_2_eq_2)
  from hist have "history [pageNew, pageOld] =
      [tx ''9'' Frozen Frozen, tx ''8'' Active Frozen, tx ''7'' Uninit Active]"
    by simp
  with two found show ?thesis by blast
qed

text \<open>
  Claim C3, as amended. The search fails with "Account not frozen" when, before any
  record with a non-frozen origin, it meets a record whose end status is not frozen; in
  particular when the newest record of a non-empty history does not end frozen. It fails
  with "Freeze transaction not found" when the pages run out (the last one carries no
  continuation) and every record found the account frozen and left it frozen.
\<close>

theorem locate_failures:
  "(pagesFrom p a None (Suc (length pre)) = Some (pre @ [b]) \<and>
    history (pre @ [b]) = frozen @ t # older \<and>
    length (history pre) \<le> length frozen \<and>
    (\<forall>x\<in>set frozen. origStatus x = Frozen \<and> endStatus x = Frozen) \<and>
    endStatus t \<noteq> Frozen
    \<longrightarrow> freezeTransactionLt p a =
          Some (None # map continuation pre, Suc (length frozen), Inl (Error ''Account not frozen'')))
   \<and>
   (pagesFrom p' a' None (Suc (length pre')) = Some (pre' @ [b']) \<and>
    continuation b' = None \<and>
    (\<forall>x\<in>set (history (pre' @ [b'])). origStatus x = Frozen \<and> endStatus x = Frozen)
    \<longrightarrow> freezeTransactionLt p' a' =
          Some (None # map continuation pre', length (history (pre' @ [b'])),
                Inl (Error ''Freeze transaction not found'')))"
proof (intro conjI impI)
  assume h: "pagesFrom p a None (Suc (length pre)) = Some (pre @ [b]) \<and>
    history (pre @ [b]) = frozen @ t # older \<and>
    length (history pre) \<le> length frozen \<and>
    (\<forall>x\<in>set frozen. origStatus x = Frozen \<and> endStatus x = Frozen) \<and>
    endStatus t \<noteq> Frozen"
  then have served: "pagesFrom p a None (Suc (length pre)) = Some (pre @ [b])"
    and cat: "history pre @ transactions b = frozen @ t # older"
    and len: "length (history pre) \<le> length frozen"
    and fr: "\<forall>x\<in>set frozen. origStatus x = Frozen \<and> endStatus x = Frozen"
    and t: "endStatus t \<noteq> Frozen"
    by (simp_all add: history_snoc)
  define k where "k = length (history pre)"
  from len have kle: "k \<le> length frozen" by (simp add: k_def)
  from cat len have hp: "history pre = take k frozen"
    unfolding k_def by (metis append_eq_append_conv_if append_eq_conv_conj)
  from cat len have tb: "transactions b = drop k frozen @ t # older"
    unfolding k_def by (metis append_eq_append_conv_if append_eq_conv_conj)
  from fr have "\<forall>x\<in>set (take k frozen). origStatus x = Frozen \<and> endStatus x = Frozen"
    by (meson in_set_takeD)
  then have "scanBatch (take k frozen) = (length (take k frozen), Inr None)"
    by (rule scanBatch_frozen)
  with kle have s1: "scanBatch (history pre) = (k, Inr None)"
    by (simp add: hp)
  from fr have "\<forall>x\<in>set (drop k frozen). origStatus x = Frozen \<and> endStatus x = Frozen"
    by (meson in_set_dropD)
  then have "scanBatch (drop k frozen) = (length frozen - k, Inr None)"
    using scanBatch_frozen[of "drop k frozen"] by simp
  with t have s2: "scanBatch (transactions b) = (length frozen - k + 1, Inl (Error ''Account not frozen''))"
    by (simp add: tb scanBatch_append)
  from kle have "k + (length frozen - k + 1) = Suc (length frozen)"
    by simp
  then show "freezeTransactionLt p a =
      Some (None # map continuation pre, Suc (length frozen), Inl (Error ''Account not frozen''))"
    unfolding freezeTransactionLt_def
    by (subst searchFreeze_pages[OF served s1]) (simp add: s2)
next
  assume h: "pagesFrom p' a' None (Suc (length pre')) = Some (pre' @ [b']) \<and>
    continuation b' = None \<and>
    (\<forall>x\<in>set (history (pre' @ [b'])). origStatus x = Frozen \<and> endStatus x = Frozen)"
  then have served: "pagesFrom p' a' None (Suc (length pre')) = Some (pre' @ [b'])"
    and stop: "continuation b' = None"
    and fr: "\<forall>x\<in>set (history pre' @ transactions b'). origStatus x = Frozen \<and> endStatus x = Frozen"
    by (simp_all add: history_snoc)
  from fr have s1: "scanBatch (history pre') = (length (history pre'), Inr None)"
    by (intro scanBatch_frozen) simp
  from fr have s2: "scanBatch (transactions b') = (length (transactions b'), Inr None)"
    by (intro scanBatch_frozen) simp
  show "freezeTransactionLt p' a' =
      Some (None # map continuation pre', length (history (pre' @ [b'])),
            Inl (Error ''Freeze transaction not found''))"
    unfolding freezeTransactionLt_def
    by (subst searchFreeze_pages[OF served s1]) (simp add: s2 stop history_snoc)
qed

text \<open>
  Instances: an account that was never frozen, and one that was frozen from its only
  record on.
\<close>

theorem locate_failures_witness:
  "freezeTransactionLt (onePage [tx ''5'' Uninit Active, tx ''4'' Nonexist Uninit]) ''0:aa''
     = Some ([None], 1, Inl (Error ''Account not frozen'')) \<and>
   freezeTransactionLt (onePage [tx ''5'' Frozen Frozen]) ''0:bb''
     = Some ([None], 1, Inl (Error ''Freeze transaction not found''))"
  using locate_failures[of "onePage [tx ''5'' Uninit Active, tx ''4'' Nonexist Uninit]" "''0:aa''" "[]"
      "\<lparr>transactions = [tx ''5'' Uninit Active, tx ''4'' Nonexist Uninit], continuation = None\<rparr>"
      "[]" "tx ''5'' Uninit Active" "[tx ''4'' Nonexist Uninit]"
      "onePage [tx ''5'' Frozen Frozen]" "''0:bb''" "[]"
      "\<lparr>transactions = [tx ''5'' Frozen Frozen], continuation = None\<rparr>"]
  by (simp add: onePage_def offline_def history_def tx_def)

text \<open>
  Claim C3 as stated fails: an account whose only transaction ends frozen has no
  transaction with a non-frozen end status, and the search does not fail, it returns that
  transaction's logical time.
\<close>

theorem locate_all_frozen_ends_counterexample:
  "getTransactions (onePage [tx ''5'' Active Frozen]) ''0:aa'' None
     = Inr \<lparr>transactions = [tx ''5'' Active Frozen], continuation = None\<rparr> \<and>
   endStatus (tx ''5'' Active Frozen) = Frozen \<and>
   freezeTransactionLt (onePage [tx ''5'' Active Frozen]) ''0:aa'' = Some ([None], 1, Inr ''5'')"
  unfolding freezeTransactionLt_def
  by (subst searchFreeze.simps) (simp add: onePage_def offline_def tx_def)

subsection \<open>Base64\<close>





















subsection \<open>State cache\<close>

lemma cachePut_writes:
  assumes "files w pa \<noteq> Some Directory" "files w pa \<noteq> Some Denied"
  shows "cachePut pa s w =
     Some (w\<lparr>files := (files w)(pa \<mapsto> File (base64Decode s)),
             events := events w @ [FsWriteFile pa (base64Decode s)]\<rparr>, Inr ())"
  using assms
  by (cases "files w pa"; simp add: cachePut_def fsWriteFile_def await_def split: node.splits)

lemma cacheTryGet_hit:
  assumes "files w pa = Some (File bs)"
  shows "cacheTryGet False pa w =
     Some (w\<lparr>events := events w @ [FsStat pa, FsReadFile pa]\<rparr>, Inr (Some (base64Encode bs)))"
  using assms
  by (simp add: cacheTryGet_def andThen_def tryCatch_def fsStatIsFile_def fsReadFile_def
      await_def succeed_def)

lemma cacheTryGet_miss:
  assumes "files w pa = None"
  shows "cacheTryGet False pa w = Some (w\<lparr>events := events w @ [FsStat pa]\<rparr>, Inr None)"
  using assms
  by (simp add: cacheTryGet_def andThen_def tryCatch_def fsStatIsFile_def sysError_def
      await_def succeed_def)

lemma cacheTryGet_ignore: "cacheTryGet True pa w = Some (w, Inr None)"
  by (simp add: cacheTryGet_def succeed_def)


subsection \<open>Runs of the preparation on given answers\<close>

lemma applyState_ok:
  assumes "freezeTransactionLt p a = Some (asked, seen, Inr l)"
      and "postApply p (applyBody a l) = Inr (ReplyOk accountBoc)"
      and "parseFullAccountStateInit p accountBoc = Inr (Some s)"
  shows "applyState p a w =
     Some (w\<lparr>events := events w @ ConsoleLog ''  searching for freeze transaction''
               # map (GetTransactions a) asked
               @ [ConsoleLog (''  applying state at logical time '' @ l),
                  PostApply (applyBody a l)]\<rparr>, Inr s)"
  using assms
  by (simp add: applyState_def andThen_def emit_def locate_def await_def succeed_def)

lemma prepareAccount_rebuild:
  assumes st: "getFullContractState p a = Inr (Some st)"
      and fee: "computeStorageFee p st (take 2 a = ''-1'') ts = Inr account"
      and status: "accountStatus account = Frozen \<or> accountStatus account = Nonexist"
      and found: "freezeTransactionLt p a = Some (asked, seen, Inr l)"
      and reply: "postApply p (applyBody a l) = Inr (ReplyOk accountBoc)"
      and parsed: "parseFullAccountStateInit p accountBoc = Inr (Some s)"
      and nodir: "files w pa \<noteq> Some Directory" and nodenied: "files w pa \<noteq> Some Denied"
      and miss: "ic \<or> files w pa = None"
  shows "prepareAccount p ic ts pa a w =
     Some (w\<lparr>files := (files w)(pa \<mapsto> File (base64Decode s)),
             events := events w @
               [GetFullContractState a, ComputeStorageFee st (take 2 a = ''-1'') ts,
                ConsoleLog (''  storage fee debt: '' @
                  (case storageFee.storageFeeDebt account of Some d \<Rightarrow> d | None \<Rightarrow> ''0''))]
               @ (if ic then [] else [FsStat pa])
               @ ConsoleLog ''  searching for freeze transaction''
               # map (GetTransactions a) asked
               @ [ConsoleLog (''  applying state at logical time '' @ l),
                  PostApply (applyBody a l),
                  FsWriteFile pa (base64Decode s),
                  ConsoleLog ''  updated cached state'']\<rparr>,
           Inr \<lparr>address = a, state = s,
                storageFeeDebt =
                  (case storageFee.storageFeeDebt account of Some d \<Rightarrow> d | None \<Rightarrow> ''0'')\<rparr>)"
proof (cases ic)
  case True
  with assms show ?thesis
    unfolding prepareAccount_def estimateDebt_def
    by (auto simp add: andThen_def await_def emit_def succeed_def Let_def cacheTryGet_ignore
        applyState_ok[OF found reply parsed] cachePut_writes)
next
  case False
  with miss have none: "files w pa = None" by simp
  with assms False show ?thesis
    unfolding prepareAccount_def estimateDebt_def
    by (auto simp add: andThen_def await_def emit_def succeed_def Let_def cacheTryGet_miss
        applyState_ok[OF found reply parsed] cachePut_writes)
qed

lemma prepareAccount_cached:
  assumes st: "getFullContractState p a = Inr (Some st)"
      and fee: "computeStorageFee p st (take 2 a = ''-1'') ts = Inr account"
      and status: "accountStatus account = Frozen \<or> accountStatus account = Nonexist"
      and hit: "files w pa = Some (File bs)"
  shows "prepareAccount p False ts pa a w =
     Some (w\<lparr>events := events w @
               [GetFullContractState a, ComputeStorageFee st (take 2 a = ''-1'') ts,
                ConsoleLog (''  storage fee debt: '' @
                  (case storageFee.storageFeeDebt account of Some d \<Rightarrow> d | None \<Rightarrow> ''0'')),
                FsStat pa, FsReadFile pa, ConsoleLog ''  using cached state'']\<rparr>,
           Inr \<lparr>address = a, state = base64Encode bs,
                storageFeeDebt =
                  (case storageFee.storageFeeDebt account of Some d \<Rightarrow> d | None \<Rightarrow> ''0'')\<rparr>)"
  using assms
  unfolding prepareAccount_def estimateDebt_def
  by (auto simp add: andThen_def await_def emit_def succeed_def Let_def cacheTryGet_hit)

lemma decode_sample: "base64Decode ''QUJD'' = [65, 66, 67]"
  by code_simp


lemma encode_sample2: "base64Encode [1, 2, 3] = ''AQID''"
  by code_simp

lemma chain_freeze:
  "freezeTransactionLt chain a = Some ([None, Some (token ''9'')], 2, Inr ''8'')"
  unfolding freezeTransactionLt_def
  apply (subst searchFreeze.simps)
  apply (simp add: chain_def twoPages_def offline_def pageNew_def tx_def)
  apply (subst searchFreeze.simps)
  apply (simp add: chain_def twoPages_def offline_def pageOld_def tx_def token_def)
  done




subsection \<open>Rules for programs\<close>

lemma wp_succeed [simp]: "wp (succeed x) Q w = Q w (Inr x)"
  by (simp add: wp_def succeed_def)

lemma wp_throw [simp]: "wp (throw e) Q w = Q w (Inl e)"
  by (simp add: wp_def throw_def)

lemma wp_emit [simp]: "wp (emit ev) Q w = Q (w\<lparr>events := events w @ [ev]\<rparr>) (Inr ())"
  by (simp add: wp_def emit_def)

lemma wp_await [simp]: "wp (await ev r) Q w = Q (w\<lparr>events := events w @ [ev]\<rparr>) r"
  by (simp add: wp_def await_def)

lemma wp_andThen [simp]:
  "wp (andThen m f) Q w =
     wp m (\<lambda>w' r. case r of Inl e \<Rightarrow> Q w' (Inl e) | Inr x \<Rightarrow> wp (f x) Q w') w"
  by (auto simp: wp_def andThen_def split: option.splits sum.splits prod.splits)

lemma wp_tryCatch [simp]:
  "wp (tryCatch m h) Q w =
     wp m (\<lambda>w' r. case r of Inl e \<Rightarrow> wp (h e) Q w' | Inr x \<Rightarrow> Q w' (Inr x)) w"
  by (auto simp: wp_def tryCatch_def split: option.splits sum.splits prod.splits)

lemma wp_locate [simp]:
  "wp (locate p a) Q w =
     (\<forall>asked seen r. freezeTransactionLt p a = Some (asked, seen, r) \<longrightarrow>
        Q (w\<lparr>events := events w @ map (GetTransactions a) asked\<rparr>) r)"
  by (auto simp: wp_def locate_def split: option.splits prod.splits)

lemma wp_fsStatIsFile [simp]:
  "wp (fsStatIsFile pa) Q w =
     Q (w\<lparr>events := events w @ [FsStat pa]\<rparr>)
       (case files w pa of
          None \<Rightarrow> Inl (sysError ''ENOENT'' ''stat'' pa)
        | Some (File bs) \<Rightarrow> Inr True
        | Some Directory \<Rightarrow> Inr False
        | Some Denied \<Rightarrow> Inl (sysError ''EACCES'' ''stat'' pa))"
  by (simp add: fsStatIsFile_def wp_def await_def)

lemma wp_fsReadFile [simp]:
  "wp (fsReadFile pa) Q w =
     Q (w\<lparr>events := events w @ [FsReadFile pa]\<rparr>)
       (case files w pa of
          None \<Rightarrow> Inl (sysError ''ENOENT'' ''open'' pa)
        | Some (File bs) \<Rightarrow> Inr bs
        | Some Directory \<Rightarrow> Inl (sysError ''EISDIR'' ''read'' pa)
        | Some Denied \<Rightarrow> Inl (sysError ''EACCES'' ''open'' pa))"
  by (simp add: fsReadFile_def wp_def await_def)

lemma wp_fsWriteFile [simp]:
  "wp (fsWriteFile pa bs) Q w =
     (case files w pa of
        Some Directory \<Rightarrow>
          Q (w\<lparr>events := events w @ [FsWriteFile pa bs]\<rparr>) (Inl (sysError ''EISDIR'' ''open'' pa))
      | Some Denied \<Rightarrow>
          Q (w\<lparr>events := events w @ [FsWriteFile pa bs]\<rparr>) (Inl (sysError ''EACCES'' ''open'' pa))
      | _ \<Rightarrow> Q (w\<lparr>files := (files w)(pa \<mapsto> File bs), events := events w @ [FsWriteFile pa bs]\<rparr>)
             (Inr ()))"
  by (auto simp: fsWriteFile_def wp_def await_def split: option.splits node.splits)

lemma wpD: "wp m Q w \<Longrightarrow> m w = Some (w', r) \<Longrightarrow> Q w' r"
  by (simp add: wp_def)

lemma wp_mono: "wp m Q w \<Longrightarrow> (\<And>w' r. Q w' r \<Longrightarrow> Q' w' r) \<Longrightarrow> wp m Q' w"
  by (simp add: wp_def)

subsection \<open>The search asks at least once\<close>

lemma searchFreeze_asked:
  assumes "searchFreeze p a c asked seen = Some y"
  shows "\<exists>more. fst y = asked @ c # more"
  by (rule searchFreeze.raw_induct[OF _ assms])
    (fastforce split: sum.splits prod.splits option.splits)

lemma freezeTransactionLt_asked:
  "freezeTransactionLt p a = Some (asked, n, r) \<Longrightarrow> asked \<noteq> []"
  unfolding freezeTransactionLt_def by (drule searchFreeze_asked) auto

subsection \<open>What each part of the pipeline does to the world\<close>

lemma estimateDebt_spec:
  "wp (estimateDebt p ts a)
     (\<lambda>w' r. files w' = files w \<and>
        (case r of
           Inr debt \<Rightarrow>
             (\<exists>st account.
                getFullContractState p a = Inr (Some st) \<and>
                computeStorageFee p st (take 2 a = ''-1'') ts = Inr account \<and>
                (accountStatus account = Frozen \<or> accountStatus account = Nonexist) \<and>
                debt = (case storageFee.storageFeeDebt account of Some d \<Rightarrow> d | None \<Rightarrow> ''0'') \<and>
                events w' = events w @
                  [GetFullContractState a, ComputeStorageFee st (take 2 a = ''-1'') ts,
                   ConsoleLog (''  storage fee debt: '' @ debt)])
         | Inl e \<Rightarrow>
             events w' = events w @ [GetFullContractState a] \<or>
             (\<exists>st. events w' = events w @
                [GetFullContractState a, ComputeStorageFee st (take 2 a = ''-1'') ts]))) w"
  unfolding estimateDebt_def
  by (simp split: sum.splits option.splits)

lemma cacheTryGet_spec:
  "wp (cacheTryGet ic pa)
     (\<lambda>w' r. files w' = files w \<and>
        (if ic then events w' = events w \<and> r = Inr None
         else (case files w pa of
                 Some (File bs) \<Rightarrow>
                   events w' = events w @ [FsStat pa, FsReadFile pa] \<and>
                   r = Inr (Some (base64Encode bs))
               | Some Denied \<Rightarrow>
                   events w' = events w @ [FsStat pa] \<and> r = Inl (sysError ''EACCES'' ''stat'' pa)
               | _ \<Rightarrow> events w' = events w @ [FsStat pa] \<and> r = Inr None))) w"
  unfolding cacheTryGet_def
  by (simp add: sysError_def split: option.splits node.splits)

lemma applyState_spec:
  "wp (applyState p a)
     (\<lambda>w' r. files w' = files w \<and>
        (\<exists>asked. asked \<noteq> [] \<and>
           (case r of
              Inr s \<Rightarrow>
                (\<exists>l. events w' = events w @
                   ConsoleLog ''  searching for freeze transaction'' # map (GetTransactions a) asked @
                   [ConsoleLog (''  applying state at logical time '' @ l),
                    PostApply (applyBody a l)])
            | Inl e \<Rightarrow>
                events w' = events w @
                  ConsoleLog ''  searching for freeze transaction'' # map (GetTransactions a) asked
                \<or>
                (\<exists>l. events w' = events w @
                   ConsoleLog ''  searching for freeze transaction'' # map (GetTransactions a) asked @
                   [ConsoleLog (''  applying state at logical time '' @ l),
                    PostApply (applyBody a l)])))) w"
  unfolding applyState_def
  by (auto split: sum.splits option.splits archiveReply.splits dest: freezeTransactionLt_asked)

subsection \<open>Reading event lists\<close>

lemma started_append [simp]: "started (xs @ ys) = started xs @ started ys"
  by (induction xs rule: started.induct) simp_all

lemma skipped_append [simp]: "skipped (xs @ ys) = skipped xs @ skipped ys"
  by (induction xs rule: skipped.induct) simp_all

lemma started_pages [simp]: "started (map (GetTransactions a) asked) = []"
  by (induction asked) simp_all

lemma skipped_pages [simp]: "skipped (map (GetTransactions a) asked) = []"
  by (induction asked) simp_all

lemma ranks_Nil [simp]: "ranks [] = []"
  by (simp add: ranks_def map_filter_simps)

lemma ranks_Cons [simp]:
  "ranks (e # evs) = (case stageOf e of None \<Rightarrow> ranks evs | Some s \<Rightarrow> stageRank s # ranks evs)"
  by (simp add: ranks_def map_filter_simps split: option.splits)

lemma ranks_append [simp]: "ranks (xs @ ys) = ranks xs @ ranks ys"
  by (induction xs) (simp_all split: option.splits)

lemma ranks_pages [simp]: "ranks (map (GetTransactions a) asked) = replicate (length asked) 2"
  by (induction asked) simp_all

lemma stages_Cons:
  "List.map_filter stageOf (e # evs) =
     (case stageOf e of None \<Rightarrow> List.map_filter stageOf evs
      | Some s \<Rightarrow> s # List.map_filter stageOf evs)"
  by (simp add: map_filter_simps split: option.splits)

lemma stages_append:
  "List.map_filter stageOf (xs @ ys) = List.map_filter stageOf xs @ List.map_filter stageOf ys"
  by (induction xs) (simp_all add: map_filter_simps split: option.splits)

lemma stages_pages:
  "List.map_filter stageOf (map (GetTransactions a) asked) =
     replicate (length asked) FreezePointLocator"
  by (induction asked) (simp_all add: map_filter_simps)

lemma remdups_adj_twice: "remdups_adj (xs @ x # x # ys) = remdups_adj (xs @ x # ys)"
proof -
  have "remdups_adj (xs @ x # x # ys) = remdups_adj (xs @ [x]) @ tl (remdups_adj (x # x # ys))"
    by (rule remdups_adj_append)
  also have "\<dots> = remdups_adj (xs @ [x]) @ tl (remdups_adj (x # ys))"
    by simp
  also have "\<dots> = remdups_adj (xs @ x # ys)"
    by (rule remdups_adj_append[symmetric])
  finally show ?thesis .
qed

lemma remdups_adj_run:
  "remdups_adj (xs @ replicate (Suc k) x @ ys) = remdups_adj (xs @ x # ys)"
proof (induction k arbitrary: xs)
  case 0
  show ?case by simp
next
  case (Suc k)
  have "remdups_adj (xs @ replicate (Suc (Suc k)) x @ ys)
      = remdups_adj ((xs @ [x]) @ replicate (Suc k) x @ ys)"
    by simp
  also have "\<dots> = remdups_adj ((xs @ [x]) @ x # ys)"
    by (rule Suc.IH)
  also have "\<dots> = remdups_adj (xs @ x # ys)"
    by (simp add: remdups_adj_twice)
  finally show ?case .
qed

lemma remdups_adj_cons_run: "remdups_adj (x # replicate k x @ ys) = remdups_adj (x # ys)"
  using remdups_adj_run[of "[]" k x ys] by simp

lemma stages_rebuild:
  assumes "asked \<noteq> []"
  shows "\<exists>k. List.map_filter stageOf (map (GetTransactions a) asked @
           [ConsoleLog s2, PostApply b, FsWriteFile pa bs, ConsoleLog s3]) =
         FreezePointLocator # replicate k FreezePointLocator @
           [StateReconstructor, StateCacheStore]"
proof -
  from assms obtain k where k: "length asked = Suc k"
    by (cases asked) simp_all
  then show ?thesis
    by (simp add: stages_append stages_Cons stages_pages map_filter_simps)
qed

lemma rebuild_spec:
  "wp (andThen (applyState p a) (\<lambda>state'.
       andThen (cachePut pa state') (\<lambda>_.
       andThen (emit (ConsoleLog ''  updated cached state'')) (\<lambda>_.
         succeed \<lparr>address = a, state = state', storageFeeDebt = debt\<rparr>))))
     (\<lambda>w' r. \<exists>evs. events w' = events w @ evs \<and> started evs = [] \<and> skipped evs = [] \<and>
        sorted (ranks evs) \<and> (\<forall>x\<in>set (ranks evs). 2 \<le> x) \<and>
        (\<forall>item. r = Inr item \<longrightarrow>
           address item = a \<and> storageFeeDebt item = debt \<and>
           (\<exists>k. List.map_filter stageOf evs =
              FreezePointLocator # replicate k FreezePointLocator @
                [StateReconstructor, StateCacheStore]))) w"
  apply (simp only: wp_andThen)
  apply (rule wp_mono[OF applyState_spec])
  apply (auto simp: cachePut_def sorted_append intro: stages_rebuild split: sum.splits option.splits node.splits)
  done

lemma prepareAccount_spec:
  "wp (prepareAccount p ic ts pa a)
     (\<lambda>w' r. \<exists>evs. events w' = events w @ GetFullContractState a # evs \<and>
        started evs = [] \<and> skipped evs = [] \<and> sorted (ranks evs) \<and>
        (\<forall>item. r = Inr item \<longrightarrow>
           address item = a \<and>
           stagesOf evs =
             (if ic then [StorageDebtEstimator, FreezePointLocator, StateReconstructor, StateCacheStore]
              else if (\<exists>bs. files w pa = Some (File bs))
              then [StorageDebtEstimator, StateCacheLookup]
              else [StorageDebtEstimator, StateCacheLookup, FreezePointLocator,
                    StateReconstructor, StateCacheStore]) \<and>
           (\<exists>st account.
              getFullContractState p a = Inr (Some st) \<and>
              computeStorageFee p st (take 2 a = ''-1'') ts = Inr account \<and>
              storageFeeDebt item =
                (case storageFee.storageFeeDebt account of Some d \<Rightarrow> d | None \<Rightarrow> ''0'') \<and>
              ConsoleLog (''  storage fee debt: '' @ storageFeeDebt item) \<in> set evs))) w"
  unfolding prepareAccount_def
  apply (simp only: wp_andThen)
  apply (rule wp_mono[OF estimateDebt_spec])
  subgoal for w1 r1
    apply (cases r1)
    subgoal by auto
    apply (simp only: sum.case)
    apply (elim conjE exE)
    apply (rule wp_mono[OF cacheTryGet_spec])
    subgoal for debt st account w2 r2
      apply (cases ic)
      subgoal
        apply (simp del: wp_andThen)
        apply (rule wp_mono[OF rebuild_spec])
        apply (auto simp: sorted_append stagesOf_def stages_Cons remdups_adj_cons_run)
        done
      apply (cases "files w pa")
      subgoal
        apply (simp del: wp_andThen)
        apply (rule wp_mono[OF rebuild_spec])
        apply (auto simp: sorted_append stagesOf_def stages_Cons remdups_adj_cons_run)
         apply fastforce+
        done
      subgoal for nd
        apply (cases nd)
        subgoal by (auto simp: sorted_append stagesOf_def stages_Cons map_filter_simps)
        subgoal
          apply (simp del: wp_andThen)
          apply (rule wp_mono[OF rebuild_spec])
          apply (auto simp: sorted_append stagesOf_def stages_Cons remdups_adj_cons_run)
           apply fastforce+
          done
        subgoal by (auto simp: sorted_append stagesOf_def stages_Cons sysError_def)
        done
      done
    done
  done

subsection \<open>Debt estimate\<close>

text \<open>
  Claim C8. When the fee facility reports a status other than frozen or nonexistent, the
  account's preparation fails with "Account is not frozen" right after that call. When the
  facility gives no debt figure, every account that is prepared carries the debt "0",
  which reads as the number zero, and the progress line says so.
\<close>

theorem debt_estimation:
  assumes st: "getFullContractState p a = Inr (Some st)"
      and fee: "computeStorageFee p st (take 2 a = ''-1'') ts = Inr account"
  shows "(accountStatus account \<noteq> Frozen \<and> accountStatus account \<noteq> Nonexist \<longrightarrow>
            prepareAccount p ic ts pa a w =
              Some (w\<lparr>events := events w @
                      [GetFullContractState a, ComputeStorageFee st (take 2 a = ''-1'') ts]\<rparr>,
                    Inl (Error ''Account is not frozen'')))
       \<and> (storageFee.storageFeeDebt account = None \<longrightarrow>
            prepareAccount p ic ts pa a w = Some (w', Inr item) \<longrightarrow>
            storageFeeDebt item = ''0'' \<and> BigInt (storageFeeDebt item) = Inr 0 \<and>
            ConsoleLog ''  storage fee debt: 0'' \<in> set (events w'))"
proof (rule conjI; intro impI)
  assume "accountStatus account \<noteq> Frozen \<and> accountStatus account \<noteq> Nonexist"
  with st fee show "prepareAccount p ic ts pa a w =
      Some (w\<lparr>events := events w @
              [GetFullContractState a, ComputeStorageFee st (take 2 a = ''-1'') ts]\<rparr>,
            Inl (Error ''Account is not frozen''))"
    by (simp add: prepareAccount_def estimateDebt_def andThen_def await_def throw_def)
next
  assume none: "storageFee.storageFeeDebt account = None"
    and ret: "prepareAccount p ic ts pa a w = Some (w', Inr item)"
  from wpD[OF prepareAccount_spec ret] obtain evs where
    ev: "events w' = events w @ GetFullContractState a # evs" and
    debt: "storageFeeDebt item =
      (case storageFee.storageFeeDebt account of Some d \<Rightarrow> d | None \<Rightarrow> ''0'')" and
    logged: "ConsoleLog (''  storage fee debt: '' @ storageFeeDebt item) \<in> set evs"
    using st fee by auto
  from debt none have zero: "storageFeeDebt item = ''0''" by simp
  have "BigInt ''0'' = Inr 0"
    by (simp add: BigInt_def stringToBigInt_def trim_def isSpace_def parseDigits_def
        digitValue_def)
  with zero logged ev show "storageFeeDebt item = ''0'' \<and> BigInt (storageFeeDebt item) = Inr 0 \<and>
      ConsoleLog ''  storage fee debt: 0'' \<in> set (events w')"
    by simp
qed

lemma chain_state:
  "a \<noteq> giverAddress \<Longrightarrow>
   getFullContractState chain a = Inr (Some \<lparr>codeHash = None, boc = ''frozen''\<rparr>)"
  by (simp add: chain_def twoPages_def offline_def)

lemma sample_not_giver: "''0:aa'' \<noteq> giverAddress" "''-1:bb'' \<noteq> giverAddress"
  by (simp_all add: giverAddress_def)

lemma prepare_cached_sample:
  "prepareAccount chain False 1700003600 ''/tmp/heatwave-states/0:aa'' ''0:aa'' warmDisk =
     Some (warmDisk\<lparr>events :=
             [GetFullContractState ''0:aa'',
              ComputeStorageFee \<lparr>codeHash = None, boc = ''frozen''\<rparr> False 1700003600,
              ConsoleLog ''  storage fee debt: 0'',
              FsStat ''/tmp/heatwave-states/0:aa'', FsReadFile ''/tmp/heatwave-states/0:aa'',
              ConsoleLog ''  using cached state'']\<rparr>,
           Inr \<lparr>address = ''0:aa'', state = ''AQID'', storageFeeDebt = ''0''\<rparr>)"
proof -
  have fee: "computeStorageFee chain \<lparr>codeHash = None, boc = ''frozen''\<rparr> (take 2 ''0:aa'' = ''-1'') 1700003600
      = Inr \<lparr>accountStatus = Frozen, storageFeeDebt = None\<rparr>"
    by (simp add: chain_def twoPages_def offline_def)
  have hit: "files warmDisk ''/tmp/heatwave-states/0:aa'' = Some (File [1, 2, 3])"
    by (simp add: warmDisk_def)
  show ?thesis
    using prepareAccount_cached[OF chain_state[OF sample_not_giver(1)] fee _ hit,
        unfolded encode_sample2]
    by (simp add: warmDisk_def)
qed

text \<open>
  Instances: a facility that finds the account active, and one that gives no debt.
\<close>

theorem debt_estimation_witness:
  "prepareAccount chainActive False 1700003600 ''/tmp/heatwave-states/0:aa'' ''0:aa'' warmDisk =
     Some (warmDisk\<lparr>events :=
             [GetFullContractState ''0:aa'',
              ComputeStorageFee \<lparr>codeHash = None, boc = ''frozen''\<rparr> False 1700003600]\<rparr>,
           Inl (Error ''Account is not frozen'')) \<and>
   computeStorageFee chain \<lparr>codeHash = None, boc = ''frozen''\<rparr> False 1700003600 =
     Inr \<lparr>accountStatus = Frozen, storageFeeDebt = None\<rparr> \<and>
   prepareAccount chain False 1700003600 ''/tmp/heatwave-states/0:aa'' ''0:aa'' warmDisk =
     Some (warmDisk\<lparr>events :=
             [GetFullContractState ''0:aa'',
              ComputeStorageFee \<lparr>codeHash = None, boc = ''frozen''\<rparr> False 1700003600,
              ConsoleLog ''  storage fee debt: 0'',
              FsStat ''/tmp/heatwave-states/0:aa'', FsReadFile ''/tmp/heatwave-states/0:aa'',
              ConsoleLog ''  using cached state'']\<rparr>,
           Inr \<lparr>address = ''0:aa'', state = ''AQID'', storageFeeDebt = ''0''\<rparr>) \<and>
   storageFeeDebt \<lparr>address = ''0:aa'', state = ''AQID'', storageFeeDebt = ''0''\<rparr> = ''0'' \<and>
   BigInt ''0'' = Inr 0"
proof -
  have stA: "getFullContractState chainActive ''0:aa'' = Inr (Some \<lparr>codeHash = None, boc = ''frozen''\<rparr>)"
    by (simp add: chainActive_def chain_def twoPages_def offline_def giverAddress_def)
  have feeA: "computeStorageFee chainActive \<lparr>codeHash = None, boc = ''frozen''\<rparr> (take 2 ''0:aa'' = ''-1'') 1700003600
      = Inr \<lparr>accountStatus = Active, storageFeeDebt = Some ''7''\<rparr>"
    by (simp add: chainActive_def chain_def twoPages_def offline_def)
  have fee: "computeStorageFee chain \<lparr>codeHash = None, boc = ''frozen''\<rparr> (take 2 ''0:aa'' = ''-1'') 1700003600
      = Inr \<lparr>accountStatus = Frozen, storageFeeDebt = None\<rparr>"
    by (simp add: chain_def twoPages_def offline_def)
  from debt_estimation[OF stA feeA, of False "''/tmp/heatwave-states/0:aa''" warmDisk]
  have one: "prepareAccount chainActive False 1700003600 ''/tmp/heatwave-states/0:aa'' ''0:aa'' warmDisk =
     Some (warmDisk\<lparr>events :=
             [GetFullContractState ''0:aa'',
              ComputeStorageFee \<lparr>codeHash = None, boc = ''frozen''\<rparr> False 1700003600]\<rparr>,
           Inl (Error ''Account is not frozen''))"
    by (simp add: warmDisk_def)
  from debt_estimation[OF chain_state[OF sample_not_giver(1)] fee, of False
      "''/tmp/heatwave-states/0:aa''" warmDisk _ "\<lparr>address = ''0:aa'', state = ''AQID'', storageFeeDebt = ''0''\<rparr>"]
    prepare_cached_sample
  have two: "BigInt ''0'' = Inr 0" by simp
  from fee have fee': "computeStorageFee chain \<lparr>codeHash = None, boc = ''frozen''\<rparr> False 1700003600 =
     Inr \<lparr>accountStatus = Frozen, storageFeeDebt = None\<rparr>" by simp
  from one fee' prepare_cached_sample two show ?thesis by simp
qed

subsection \<open>Funding account\<close>

text \<open>
  Claim C7. Given the state the provider shows for the funding address: no state is
  the error "Giver account not found"; a state without code fingerprint is "Giver account
  is uninit"; a fingerprint outside the four recognized ones is "Unknown contract"; and
  each of the four recognized fingerprints gives its own kind of account. In every case
  the provider was asked once and nothing else happened.
\<close>

theorem resolve_giver:
  assumes "getFullContractState p a = Inr s"
  shows "(s = None \<longrightarrow>
            guessGiverAccount p a k w =
              Some (w\<lparr>events := events w @ [GetFullContractState a]\<rparr>,
                    Inl (Error ''Giver account not found'')))
       \<and> (s = Some st \<longrightarrow> codeHash st = None \<longrightarrow>
            guessGiverAccount p a k w =
              Some (w\<lparr>events := events w @ [GetFullContractState a]\<rparr>,
                    Inl (Error ''Giver account is uninit'')))
       \<and> (s = Some st \<longrightarrow> codeHash st = Some h \<longrightarrow> h \<notin> set knownCodeHashes \<longrightarrow>
            guessGiverAccount p a k w =
              Some (w\<lparr>events := events w @ [GetFullContractState a]\<rparr>,
                    Inl (Error ''Unknown contract'')))
       \<and> (s = Some st \<longrightarrow> codeHash st = Some h \<longrightarrow> h \<in> set knownCodeHashes \<longrightarrow>
            guessGiverAccount p a k w =
              Some (w\<lparr>events := events w @ [GetFullContractState a]\<rparr>,
                    Inr (if h = knownCodeHashes ! 0 then WalletV3Account a
                         else if h = knownCodeHashes ! 1 then HighloadWalletV2 a
                         else if h = knownCodeHashes ! 2 then EverWalletAccount a
                         else GiverAccount a k)))"
  using assms
  by (auto simp: guessGiverAccount_def andThen_def await_def throw_def succeed_def
      knownCodeHashes_def)

text \<open>
  Instances: no state, no fingerprint, the empty fingerprint, an unlisted fingerprint
  of 64 hexadecimal digits, and the fourth recognized one.
\<close>

theorem resolve_giver_witness:
  "guessGiverAccount (giverWith None) giverAddress ''pub'' emptyDisk =
     Some (emptyDisk\<lparr>events := [GetFullContractState giverAddress]\<rparr>,
           Inl (Error ''Giver account not found'')) \<and>
   guessGiverAccount (giverWith (Some \<lparr>codeHash = None, boc = ''x''\<rparr>)) giverAddress ''pub'' emptyDisk =
     Some (emptyDisk\<lparr>events := [GetFullContractState giverAddress]\<rparr>,
           Inl (Error ''Giver account is uninit'')) \<and>
   guessGiverAccount (giverWith (Some \<lparr>codeHash = Some [], boc = ''x''\<rparr>)) giverAddress ''pub'' emptyDisk =
     Some (emptyDisk\<lparr>events := [GetFullContractState giverAddress]\<rparr>,
           Inl (Error ''Unknown contract'')) \<and>
   guessGiverAccount (giverWith (Some \<lparr>codeHash =
       Some ''0000000000000000000000000000000000000000000000000000000000000000'', boc = ''x''\<rparr>))
       giverAddress ''pub'' emptyDisk =
     Some (emptyDisk\<lparr>events := [GetFullContractState giverAddress]\<rparr>,
           Inl (Error ''Unknown contract'')) \<and>
   guessGiverAccount (giverWith (Some \<lparr>codeHash =
       Some ''ccbfc821853aa641af3813ebd477e26818b51e4ca23e5f6d34509215aa7123d9'', boc = ''x''\<rparr>))
       giverAddress ''pub'' emptyDisk =
     Some (emptyDisk\<lparr>events := [GetFullContractState giverAddress]\<rparr>,
           Inr (GiverAccount giverAddress ''pub''))"
proof -
  have g: "getFullContractState (giverWith s) giverAddress = Inr s" for s
    by (simp add: giverWith_def offline_def)
  note r = resolve_giver[OF g, where k = "''pub''" and w = emptyDisk]
  have 1: "guessGiverAccount (giverWith None) giverAddress ''pub'' emptyDisk =
     Some (emptyDisk\<lparr>events := [GetFullContractState giverAddress]\<rparr>,
           Inl (Error ''Giver account not found''))"
    using r[where s = None] by (simp add: emptyDisk_def)
  have 2: "guessGiverAccount (giverWith (Some \<lparr>codeHash = None, boc = ''x''\<rparr>)) giverAddress ''pub'' emptyDisk =
     Some (emptyDisk\<lparr>events := [GetFullContractState giverAddress]\<rparr>,
           Inl (Error ''Giver account is uninit''))"
    using r[where s = "Some \<lparr>codeHash = None, boc = ''x''\<rparr>"
        and st = "\<lparr>codeHash = None, boc = ''x''\<rparr>"]
    by (simp add: emptyDisk_def)
  have 3: "guessGiverAccount (giverWith (Some \<lparr>codeHash = Some [], boc = ''x''\<rparr>)) giverAddress ''pub'' emptyDisk =
     Some (emptyDisk\<lparr>events := [GetFullContractState giverAddress]\<rparr>,
           Inl (Error ''Unknown contract''))"
    using r[where s = "Some \<lparr>codeHash = Some [], boc = ''x''\<rparr>"
        and st = "\<lparr>codeHash = Some [], boc = ''x''\<rparr>" and h = "[]"]
    by (simp add: emptyDisk_def knownCodeHashes_def)
  have 4: "guessGiverAccount (giverWith (Some \<lparr>codeHash =
       Some ''0000000000000000000000000000000000000000000000000000000000000000'', boc = ''x''\<rparr>))
       giverAddress ''pub'' emptyDisk =
     Some (emptyDisk\<lparr>events := [GetFullContractState giverAddress]\<rparr>,
           Inl (Error ''Unknown contract''))"
    using r[where s = "Some \<lparr>codeHash =
       Some ''0000000000000000000000000000000000000000000000000000000000000000'', boc = ''x''\<rparr>"
       and st = "\<lparr>codeHash =
       Some ''0000000000000000000000000000000000000000000000000000000000000000'', boc = ''x''\<rparr>"
       and h = "''0000000000000000000000000000000000000000000000000000000000000000''"]
    by (simp add: emptyDisk_def knownCodeHashes_def)
  have 5: "guessGiverAccount (giverWith (Some \<lparr>codeHash =
       Some ''ccbfc821853aa641af3813ebd477e26818b51e4ca23e5f6d34509215aa7123d9'', boc = ''x''\<rparr>))
       giverAddress ''pub'' emptyDisk =
     Some (emptyDisk\<lparr>events := [GetFullContractState giverAddress]\<rparr>,
           Inr (GiverAccount giverAddress ''pub''))"
    using r[where s = "Some \<lparr>codeHash =
       Some ''ccbfc821853aa641af3813ebd477e26818b51e4ca23e5f6d34509215aa7123d9'', boc = ''x''\<rparr>"
       and st = "\<lparr>codeHash =
       Some ''ccbfc821853aa641af3813ebd477e26818b51e4ca23e5f6d34509215aa7123d9'', boc = ''x''\<rparr>"
       and h = "''ccbfc821853aa641af3813ebd477e26818b51e4ca23e5f6d34509215aa7123d9''"]
    by (simp add: emptyDisk_def knownCodeHashes_def)
  from 1 2 3 4 5 show ?thesis by blast
qed

subsection \<open>Funding amount\<close>






subsection \<open>Funding address on the command line\<close>

lemma hexDigit_iff:
  "hexDigit d \<longleftrightarrow> d \<in> set ''0123456789'' \<or> d \<in> set ''abcdef'' \<or> d \<in> set ''ABCDEF''"
  by (auto simp: hexDigit_def)

lemma checkAddress_shape: "checkAddress g \<longleftrightarrow> giverShape g"
proof
  assume c: "checkAddress g"
  show "giverShape g"
  proof (cases "take 3 g = ''-1:''")
    case True
    then have "g = ''-1'' @ '':'' @ drop 3 g"
      by (metis append_take_drop_id append_Cons append_Nil)
    moreover from c True have "length (drop 3 g) = 64" "list_all hexDigit (drop 3 g)"
      by (simp_all add: checkAddress_def)
    ultimately show ?thesis
      unfolding giverShape_def
      by (intro exI[of _ "''-1''"] exI[of _ "drop 3 g"]) (simp add: list_all_iff hexDigit_iff)
  next
    case False
    with c have t2: "take 2 g = ''0:''"
      by (simp add: checkAddress_def split: if_splits)
    then have "g = ''0'' @ '':'' @ drop 2 g"
      by (metis append_take_drop_id append_Cons append_Nil)
    moreover from c False t2 have "length (drop 2 g) = 64" "list_all hexDigit (drop 2 g)"
      by (simp_all add: checkAddress_def)
    ultimately show ?thesis
      unfolding giverShape_def
      by (intro exI[of _ "''0''"] exI[of _ "drop 2 g"]) (simp add: list_all_iff hexDigit_iff)
  qed
next
  assume "giverShape g"
  then obtain wc ds where g: "g = wc @ '':'' @ ds" and wc: "wc = ''-1'' \<or> wc = ''0''"
    and len: "length ds = 64" and hex: "list_all hexDigit ds"
    unfolding giverShape_def by (auto simp: list_all_iff hexDigit_iff)
  from wc show "checkAddress g"
  proof
    assume "wc = ''-1''"
    with g len hex show ?thesis by (simp add: checkAddress_def)
  next
    assume "wc = ''0''"
    with g len hex show ?thesis by (simp add: checkAddress_def)
  qed
qed

lemma parseArgs_bad_giver:
  assumes "flags args ''giver'' = Some (FlagValue g)" and "\<not> checkAddress g"
  shows "\<exists>e. parseArgs args = Inl e"
  using assms
  by (auto simp: parseArgs_def Let_def split: sum.splits list.splits option.splits flag.splits)

lemma parseArgs_invalid_giver:
  assumes "flags args ''giver'' = Some (FlagValue g)" and "\<not> checkAddress g"
      and "positional args \<noteq> []" and "flags args ''sign'' = Some (FlagValue s)"
      and "parseSwitch args ''ignore-cache'' = Inr b"
  shows "parseArgs args = Inl (Error ''Invalid giver address'')"
  using assms
  by (auto simp: parseArgs_def Let_def split: list.splits)

text \<open>
  Claim C10. A \<^verbatim>\<open>--giver\<close> text that is not workchain "-1" or "0", a colon and 64
  hexadecimal digits ends the run while the arguments are parsed: \<^verbatim>\<open>app\<close> throws in
  the world it started in (no key file read, no provider call, no account touched), and
  the run prints the message and exits with 1. The message is "Invalid giver address"
  whenever the checks that come before it in \<^verbatim>\<open>parseArgs\<close> pass: a path and a
  \<^verbatim>\<open>--sign\<close> text are given and \<^verbatim>\<open>--ignore-cache\<close> is a switch.
\<close>

theorem invalid_giver_is_fatal:
  assumes giver: "flags (getArgs argv) ''giver'' = Some (FlagValue g)"
      and bad: "\<not> giverShape g"
      and nohelp: "flags (getArgs argv) ''h'' = None" "flags (getArgs argv) ''help'' = None"
  shows "(\<exists>e. parseArgs (getArgs argv) = Inl e \<and>
              app p (getArgs argv) w = Some (w, Inl e) \<and>
              main p argv w =
                Some (w\<lparr>events := events w @ [ConsoleLog (messageText e), Exit 1]\<rparr>, Inr ())) \<and>
         (positional (getArgs argv) \<noteq> [] \<longrightarrow>
          (\<exists>s. flags (getArgs argv) ''sign'' = Some (FlagValue s)) \<longrightarrow>
          (\<exists>b. parseSwitch (getArgs argv) ''ignore-cache'' = Inr b) \<longrightarrow>
            parseArgs (getArgs argv) = Inl (Error ''Invalid giver address'') \<and>
            main p argv w =
              Some (w\<lparr>events := events w @ [ConsoleLog ''Invalid giver address'', Exit 1]\<rparr>,
                    Inr ()))"
proof -
  from bad have nc: "\<not> checkAddress g" by (simp add: checkAddress_shape)
  from parseArgs_bad_giver[OF giver nc] obtain e where e: "parseArgs (getArgs argv) = Inl e" ..
  have run: "app p (getArgs argv) w = Some (w, Inl e')"
    "main p argv w = Some (w\<lparr>events := events w @ [ConsoleLog (messageText e'), Exit 1]\<rparr>, Inr ())"
    if "parseArgs (getArgs argv) = Inl e'" for e'
    using that nohelp
    by (simp_all add: app_def main_def throw_def tryCatch_def andThen_def emit_def)
  have exact: "parseArgs (getArgs argv) = Inl (Error ''Invalid giver address'')"
    if "positional (getArgs argv) \<noteq> []" "flags (getArgs argv) ''sign'' = Some (FlagValue s)"
       "parseSwitch (getArgs argv) ''ignore-cache'' = Inr b" for s b
    using parseArgs_invalid_giver[OF giver nc that] .
  from e run[OF e] have first: "\<exists>e. parseArgs (getArgs argv) = Inl e \<and>
              app p (getArgs argv) w = Some (w, Inl e) \<and>
              main p argv w =
                Some (w\<lparr>events := events w @ [ConsoleLog (messageText e), Exit 1]\<rparr>, Inr ())"
    by blast
  from exact run(2) have second: "positional (getArgs argv) \<noteq> [] \<longrightarrow>
          (\<exists>s. flags (getArgs argv) ''sign'' = Some (FlagValue s)) \<longrightarrow>
          (\<exists>b. parseSwitch (getArgs argv) ''ignore-cache'' = Inr b) \<longrightarrow>
            parseArgs (getArgs argv) = Inl (Error ''Invalid giver address'') \<and>
            main p argv w =
              Some (w\<lparr>events := events w @ [ConsoleLog ''Invalid giver address'', Exit 1]\<rparr>,
                    Inr ())"
    by fastforce
  from first second show ?thesis ..
qed

lemma sample_args:
  "getArgs [''accounts.csv'',
            ''--giver=1:0000000000000000000000000000000000000000000000000000000000000000'',
            ''--sign=keys.json''] =
   \<lparr>positional = [''accounts.csv''],
    flags = [''giver'' \<mapsto> FlagValue ''1:0000000000000000000000000000000000000000000000000000000000000000'',
             ''sign'' \<mapsto> FlagValue ''keys.json'']\<rparr>"
  by (simp add: getArgs_def getArgsStep_def)

text \<open>
  An instance: workchain 1.
\<close>

theorem invalid_giver_is_fatal_witness:
  "flags (getArgs [''accounts.csv'',
            ''--giver=1:0000000000000000000000000000000000000000000000000000000000000000'',
            ''--sign=keys.json'']) ''giver'' =
     Some (FlagValue ''1:0000000000000000000000000000000000000000000000000000000000000000'') \<and>
   \<not> checkAddress ''1:0000000000000000000000000000000000000000000000000000000000000000'' \<and>
   main chain [''accounts.csv'',
            ''--giver=1:0000000000000000000000000000000000000000000000000000000000000000'',
            ''--sign=keys.json''] emptyDisk =
     Some (emptyDisk\<lparr>events := [ConsoleLog ''Invalid giver address'', Exit 1]\<rparr>, Inr ())"
proof -
  let ?argv = "[''accounts.csv'',
            ''--giver=1:0000000000000000000000000000000000000000000000000000000000000000'',
            ''--sign=keys.json'']"
  let ?g = "''1:0000000000000000000000000000000000000000000000000000000000000000''"
  have giver: "flags (getArgs ?argv) ''giver'' = Some (FlagValue ?g)"
    by (simp add: sample_args)
  have nc: "\<not> checkAddress ?g"
    by (simp add: checkAddress_def)
  then have bad: "\<not> giverShape ?g"
    by (simp add: checkAddress_shape)
  have nohelp: "flags (getArgs ?argv) ''h'' = None" "flags (getArgs ?argv) ''help'' = None"
    by (simp_all add: sample_args)
  have pos: "positional (getArgs ?argv) \<noteq> []"
    by (simp add: sample_args)
  have sg: "\<exists>s. flags (getArgs ?argv) ''sign'' = Some (FlagValue s)"
    by (simp add: sample_args)
  have sw: "\<exists>b. parseSwitch (getArgs ?argv) ''ignore-cache'' = Inr b"
    by (auto simp: sample_args parseSwitch_def)
  from invalid_giver_is_fatal[OF giver bad nohelp, of chain emptyDisk] pos sg sw
  have "main chain ?argv emptyDisk =
      Some (emptyDisk\<lparr>events := events emptyDisk @ [ConsoleLog ''Invalid giver address'', Exit 1]\<rparr>,
            Inr ())"
    by blast
  then have "main chain ?argv emptyDisk =
      Some (emptyDisk\<lparr>events := [ConsoleLog ''Invalid giver address'', Exit 1]\<rparr>, Inr ())"
    by (simp add: emptyDisk_def)
  with giver nc show ?thesis by blast
qed

subsection \<open>Order of the stages\<close>

lemma chain_rebuild:
  assumes "a \<noteq> giverAddress"
      and "files w pa \<noteq> Some Directory" and "files w pa \<noteq> Some Denied"
      and "ic \<or> files w pa = None"
  shows "prepareAccount chain ic ts pa a w =
     Some (w\<lparr>files := (files w)(pa \<mapsto> File [65, 66, 67]),
             events := events w @
               [GetFullContractState a,
                ComputeStorageFee \<lparr>codeHash = None, boc = ''frozen''\<rparr> (take 2 a = ''-1'') ts,
                ConsoleLog (''  storage fee debt: '' @ (if take 2 a = ''-1'' then ''250'' else ''0''))]
               @ (if ic then [] else [FsStat pa])
               @ [ConsoleLog ''  searching for freeze transaction'',
                  GetTransactions a None, GetTransactions a (Some (token ''9'')),
                  ConsoleLog ''  applying state at logical time 8'',
                  PostApply (applyBody a ''8''),
                  FsWriteFile pa [65, 66, 67],
                  ConsoleLog ''  updated cached state'']\<rparr>,
           Inr \<lparr>address = a, state = ''QUJD'',
                storageFeeDebt = (if take 2 a = ''-1'' then ''250'' else ''0'')\<rparr>)"
proof -
  have fee: "computeStorageFee chain \<lparr>codeHash = None, boc = ''frozen''\<rparr> (take 2 a = ''-1'') ts =
      Inr \<lparr>accountStatus = Frozen,
           storageFeeDebt = (if take 2 a = ''-1'' then Some ''250'' else None)\<rparr>"
    by (simp add: chain_def twoPages_def offline_def)
  have reply: "postApply chain (applyBody a ''8'') = Inr (ReplyOk ''boc'')"
    by (simp add: chain_def twoPages_def offline_def)
  have parsed: "parseFullAccountStateInit chain ''boc'' = Inr (Some ''QUJD'')"
    by (simp add: chain_def twoPages_def offline_def)
  show ?thesis
    using prepareAccount_rebuild[OF chain_state[OF assms(1)] fee _ chain_freeze reply parsed
        assms(2,3,4)]
    by (simp add: decode_sample)
qed

text \<open>
  Claim C9, as amended. Whenever the preparation of an account comes back, the calls it
  made are in the order: fee facility (StorageDebtEstimator), cache file read (StateCache
  lookup), transaction pages (FreezePointLocator), archive (StateReconstructor), cache
  file written (StateCache store). An account that is prepared went through the estimator
  and the lookup only when its file is cached; through estimator, lookup, locator,
  reconstructor and store on a miss; and through all of these but the lookup under
  \<^verbatim>\<open>ignoreCache\<close>. The debt estimate is the first stage, before the cache lookup and
  before the reconstruction.
\<close>

theorem pipeline_stage_order:
  assumes "prepareAccount p ic ts pa a w = Some (w', r)"
  shows "\<exists>evs. events w' = events w @ evs \<and> sorted (ranks evs) \<and>
           (\<forall>item. r = Inr item \<longrightarrow>
              stagesOf evs =
                (if ic then [StorageDebtEstimator, FreezePointLocator, StateReconstructor,
                             StateCacheStore]
                 else if (\<exists>bs. files w pa = Some (File bs))
                 then [StorageDebtEstimator, StateCacheLookup]
                 else [StorageDebtEstimator, StateCacheLookup, FreezePointLocator,
                       StateReconstructor, StateCacheStore]))"
proof -
  from wpD[OF prepareAccount_spec assms] obtain evs where
    ev: "events w' = events w @ GetFullContractState a # evs" and
    srt: "sorted (ranks evs)" and
    stg: "\<forall>item. r = Inr item \<longrightarrow>
              stagesOf evs =
                (if ic then [StorageDebtEstimator, FreezePointLocator, StateReconstructor,
                             StateCacheStore]
                 else if (\<exists>bs. files w pa = Some (File bs))
                 then [StorageDebtEstimator, StateCacheLookup]
                 else [StorageDebtEstimator, StateCacheLookup, FreezePointLocator,
                       StateReconstructor, StateCacheStore])"
    by blast
  have "stagesOf (GetFullContractState a # evs) = stagesOf evs"
    by (simp add: stagesOf_def map_filter_simps)
  with ev srt stg show ?thesis
    by (intro exI[of _ "GetFullContractState a # evs"]) simp
qed

text \<open>
  An instance: a masterchain account on an empty disk.
\<close>

theorem pipeline_stage_order_witness:
  "prepareAccount chain False 1700003600 ''/tmp/heatwave-states/-1:bb'' ''-1:bb'' emptyDisk =
     Some (emptyDisk\<lparr>files := (files emptyDisk)(''/tmp/heatwave-states/-1:bb'' \<mapsto> File [65, 66, 67]),
             events :=
               [GetFullContractState ''-1:bb'',
                ComputeStorageFee \<lparr>codeHash = None, boc = ''frozen''\<rparr> True 1700003600,
                ConsoleLog ''  storage fee debt: 250'',
                FsStat ''/tmp/heatwave-states/-1:bb'',
                ConsoleLog ''  searching for freeze transaction'',
                GetTransactions ''-1:bb'' None, GetTransactions ''-1:bb'' (Some (token ''9'')),
                ConsoleLog ''  applying state at logical time 8'',
                PostApply (applyBody ''-1:bb'' ''8''),
                FsWriteFile ''/tmp/heatwave-states/-1:bb'' [65, 66, 67],
                ConsoleLog ''  updated cached state'']\<rparr>,
           Inr \<lparr>address = ''-1:bb'', state = ''QUJD'', storageFeeDebt = ''250''\<rparr>) \<and>
   stagesOf
     [GetFullContractState ''-1:bb'',
      ComputeStorageFee \<lparr>codeHash = None, boc = ''frozen''\<rparr> True 1700003600,
      ConsoleLog ''  storage fee debt: 250'',
      FsStat ''/tmp/heatwave-states/-1:bb'',
      ConsoleLog ''  searching for freeze transaction'',
      GetTransactions ''-1:bb'' None, GetTransactions ''-1:bb'' (Some (token ''9'')),
      ConsoleLog ''  applying state at logical time 8'',
      PostApply (applyBody ''-1:bb'' ''8''),
      FsWriteFile ''/tmp/heatwave-states/-1:bb'' [65, 66, 67],
      ConsoleLog ''  updated cached state''] =
     [StorageDebtEstimator, StateCacheLookup, FreezePointLocator, StateReconstructor,
      StateCacheStore]"
proof -
  have run: "prepareAccount chain False 1700003600 ''/tmp/heatwave-states/-1:bb'' ''-1:bb'' emptyDisk =
     Some (emptyDisk\<lparr>files := (files emptyDisk)(''/tmp/heatwave-states/-1:bb'' \<mapsto> File [65, 66, 67]),
             events :=
               [GetFullContractState ''-1:bb'',
                ComputeStorageFee \<lparr>codeHash = None, boc = ''frozen''\<rparr> True 1700003600,
                ConsoleLog ''  storage fee debt: 250'',
                FsStat ''/tmp/heatwave-states/-1:bb'',
                ConsoleLog ''  searching for freeze transaction'',
                GetTransactions ''-1:bb'' None, GetTransactions ''-1:bb'' (Some (token ''9'')),
                ConsoleLog ''  applying state at logical time 8'',
                PostApply (applyBody ''-1:bb'' ''8''),
                FsWriteFile ''/tmp/heatwave-states/-1:bb'' [65, 66, 67],
                ConsoleLog ''  updated cached state'']\<rparr>,
           Inr \<lparr>address = ''-1:bb'', state = ''QUJD'', storageFeeDebt = ''250''\<rparr>)"
    using chain_rebuild[OF sample_not_giver(2), of emptyDisk "''/tmp/heatwave-states/-1:bb''" False 1700003600]
    by (simp add: emptyDisk_def)
  from pipeline_stage_order[OF run] show ?thesis
    using run by (auto simp: emptyDisk_def)
qed

text \<open>
  Claim C9 as stated fails: for an account that is not cached the stages run in the
  order estimator, lookup, locator, reconstructor, store, not lookup, locator,
  reconstructor, estimator, store.
\<close>

theorem estimate_before_lookup_counterexample:
  "prepareAccount chain False 1700003600 ''/tmp/heatwave-states/0:aa'' ''0:aa'' emptyDisk =
     Some (emptyDisk\<lparr>files := (files emptyDisk)(''/tmp/heatwave-states/0:aa'' \<mapsto> File [65, 66, 67]),
             events :=
               [GetFullContractState ''0:aa'',
                ComputeStorageFee \<lparr>codeHash = None, boc = ''frozen''\<rparr> False 1700003600,
                ConsoleLog ''  storage fee debt: 0'',
                FsStat ''/tmp/heatwave-states/0:aa'',
                ConsoleLog ''  searching for freeze transaction'',
                GetTransactions ''0:aa'' None, GetTransactions ''0:aa'' (Some (token ''9'')),
                ConsoleLog ''  applying state at logical time 8'',
                PostApply (applyBody ''0:aa'' ''8''),
                FsWriteFile ''/tmp/heatwave-states/0:aa'' [65, 66, 67],
                ConsoleLog ''  updated cached state'']\<rparr>,
           Inr \<lparr>address = ''0:aa'', state = ''QUJD'', storageFeeDebt = ''0''\<rparr>) \<and>
   stagesOf
     [GetFullContractState ''0:aa'',
      ComputeStorageFee \<lparr>codeHash = None, boc = ''frozen''\<rparr> False 1700003600,
      ConsoleLog ''  storage fee debt: 0'',
      FsStat ''/tmp/heatwave-states/0:aa'',
      ConsoleLog ''  searching for freeze transaction'',
      GetTransactions ''0:aa'' None, GetTransactions ''0:aa'' (Some (token ''9'')),
      ConsoleLog ''  applying state at logical time 8'',
      PostApply (applyBody ''0:aa'' ''8''),
      FsWriteFile ''/tmp/heatwave-states/0:aa'' [65, 66, 67],
      ConsoleLog ''  updated cached state''] =
     [StorageDebtEstimator, StateCacheLookup, FreezePointLocator, StateReconstructor,
      StateCacheStore] \<and>
   [StorageDebtEstimator, StateCacheLookup, FreezePointLocator, StateReconstructor,
    StateCacheStore] \<noteq>
   [StateCacheLookup, FreezePointLocator, StateReconstructor, StorageDebtEstimator,
    StateCacheStore]"
proof -
  have run: "prepareAccount chain False 1700003600 ''/tmp/heatwave-states/0:aa'' ''0:aa'' emptyDisk =
     Some (emptyDisk\<lparr>files := (files emptyDisk)(''/tmp/heatwave-states/0:aa'' \<mapsto> File [65, 66, 67]),
             events :=
               [GetFullContractState ''0:aa'',
                ComputeStorageFee \<lparr>codeHash = None, boc = ''frozen''\<rparr> False 1700003600,
                ConsoleLog ''  storage fee debt: 0'',
                FsStat ''/tmp/heatwave-states/0:aa'',
                ConsoleLog ''  searching for freeze transaction'',
                GetTransactions ''0:aa'' None, GetTransactions ''0:aa'' (Some (token ''9'')),
                ConsoleLog ''  applying state at logical time 8'',
                PostApply (applyBody ''0:aa'' ''8''),
                FsWriteFile ''/tmp/heatwave-states/0:aa'' [65, 66, 67],
                ConsoleLog ''  updated cached state'']\<rparr>,
           Inr \<lparr>address = ''0:aa'', state = ''QUJD'', storageFeeDebt = ''0''\<rparr>)"
    using chain_rebuild[OF sample_not_giver(1), of emptyDisk "''/tmp/heatwave-states/0:aa''" False 1700003600]
    by (simp add: emptyDisk_def)
  then show ?thesis
    by (simp add: stagesOf_def map_filter_simps)
qed

subsection \<open>A run whose relay refuses the first message\<close>









subsection \<open>Coming back\<close>










subsection \<open>Failures of one account\<close>







end
